theory Spec2Isabelle
  imports Complex_Main
begin

section \<open>Data model\<close>

text \<open>
  The notebook computes with NumPy float64 values. They are modelled by \<open>real\<close>:
  rounding and overflow are outside the model. NumPy raises no exception at a
  division by zero, at the logarithm of a non-positive number or at a fractional power
  of a negative number (it continues with inf or nan), whereas the operators of HOL
  are total and return a conventional value there. A theorem below that bounds or
  compares values carries the hypotheses under which no such operation is reached
  (positive periods and radii, a parameter vector in the support of the prior, at
  least two samples per grid axis); a theorem that equates the code with a formula
  holds because both sides apply the same operations to the same arguments. One
  decision of the code rests on rounding, the two joint constraints of the prior,
  which compare computed logarithms that can lie arbitrarily close together: there
  the float64 operations are a parameter of the model. The one non-finite value the
  code produces on purpose, \<^verbatim>\<open>-np.inf\<close>, is the constructor \<open>NegInf\<close>.

  Python exceptions are values of \<open>error\<close>: the \<^verbatim>\<open>assert\<close> of
  \<^verbatim>\<open>function_Npl\<close> and the index \<^verbatim>\<open>x[nx-1]\<close> of an empty array.
  The parameter vector is unpacked into eight names by every function that reads it,
  so it is an 8-tuple (a vector of another length raises ValueError at the unpacking
  and is excluded by the type).
\<close>

datatype error = AssertionError | IndexError

datatype npfloat = Fin real | NegInf

fun isfinite :: "npfloat \<Rightarrow> bool" where
  "isfinite (Fin v) = True"
| "isfinite NegInf = False"

fun np_add :: "npfloat \<Rightarrow> npfloat \<Rightarrow> npfloat" where
  "np_add (Fin a) (Fin b) = Fin (a + b)"
| "np_add _ _ = NegInf"

type_synonym fparam = "real \<times> real \<times> real \<times> real \<times> real \<times> real \<times> real \<times> real"

type_synonym array2 = "real list list"

text \<open>Elementwise operations on arrays of one shape, and \<^verbatim>\<open>np.sum\<close> of a 2-D array.\<close>

definition arr_map2 :: "(real \<Rightarrow> real \<Rightarrow> real) \<Rightarrow> array2 \<Rightarrow> array2 \<Rightarrow> array2" where
  "arr_map2 f A B = map2 (map2 f) A B"

definition arr_mul :: "array2 \<Rightarrow> array2 \<Rightarrow> array2" where
  "arr_mul A B = arr_map2 (\<lambda>a b. a * b) A B"

definition arr_scale :: "real \<Rightarrow> array2 \<Rightarrow> array2" where
  "arr_scale c A = map (map (\<lambda>a. c * a)) A"

definition np_sum :: "array2 \<Rightarrow> real" where
  "np_sum A = sum_list (map sum_list A)"

section \<open>Domain bounds and the integration grid\<close>

definition Pmin :: real where "Pmin = 2"
definition Pmax :: real where "Pmax = 100"
definition Rmin :: real where "Rmin = 1"
definition Rmax :: real where "Rmax = 7 / 2"

definition GetRange :: "real \<times> real \<times> real \<times> real" where
  "GetRange = (Pmin, Pmax, Rmin, Rmax)"

text \<open>
  \<^verbatim>\<open>np.geomspace(start, stop, num)\<close> for positive end points: \<open>num\<close> samples of a
  geometric progression from \<open>start\<close> to \<open>stop\<close>, both included; a single sample is
  \<open>start\<close>.
\<close>

definition geomspace :: "real \<Rightarrow> real \<Rightarrow> nat \<Rightarrow> real list" where
  "geomspace start stop num =
     map (\<lambda>i. start * (stop / start) powr (real i / real (num - 1))) [0..<num]"

text \<open>\<^verbatim>\<open>np.meshgrid(x, y)\<close>: two arrays of shape \<open>(len y, len x)\<close>.\<close>

definition meshgrid :: "real list \<Rightarrow> real list \<Rightarrow> array2 \<times> array2" where
  "meshgrid xs ys = (replicate (length ys) xs, map (\<lambda>v. replicate (length xs) v) ys)"

text \<open>
  \<^verbatim>\<open>log_grid(nx, ny)\<close>. With \<open>nx = 0\<close> the array \<open>x\<close> is empty and \<^verbatim>\<open>x[nx-1]\<close>
  raises IndexError. With \<open>nx = 1\<close> NumPy divides 0.0 by 0 and the widths are nan; the
  theorems about the grid assume at least two samples per axis.
\<close>

definition log_grid ::
  "nat \<Rightarrow> nat \<Rightarrow> error + (array2 \<times> array2 \<times> array2 \<times> array2 \<times> real list \<times> real list)" where
  "log_grid nx ny =
     (case GetRange of (Pmin', Pmax', Rmin', Rmax') \<Rightarrow>
        let x = geomspace Pmin' Pmax' nx;
            y = geomspace Rmin' Rmax' ny;
            (P, R) = meshgrid x y
        in if nx = 0 \<or> ny = 0 then Inl IndexError
           else
             let logspace_x = exp ((ln (x ! (nx - 1)) - ln (x ! 0)) / real (nx - 1));
                 logspace_y = exp ((ln (y ! (ny - 1)) - ln (y ! 0)) / real (ny - 1));
                 dP = map (map (\<lambda>p. p * (logspace_x - 1))) P;
                 dR = map (map (\<lambda>r. r * (logspace_y - 1))) R
             in Inr (P, R, dP, dR, x, y))"

text \<open>
  The module-level grid \<^verbatim>\<open>intP,intR,dP,dR,x,y = log_grid()\<close> with the default
  resolution 100 by 100. The coordinate vectors \<^verbatim>\<open>x\<close> and \<^verbatim>\<open>y\<close> are named
  \<open>grid_x\<close> and \<open>grid_y\<close> here.
\<close>

definition intP :: array2 where
  "intP = (case projr (log_grid 100 100) of (P, R, dP', dR', x, y) \<Rightarrow> P)"

definition intR :: array2 where
  "intR = (case projr (log_grid 100 100) of (P, R, dP', dR', x, y) \<Rightarrow> R)"

definition dP :: array2 where
  "dP = (case projr (log_grid 100 100) of (P, R, dP', dR', x, y) \<Rightarrow> dP')"

definition dR :: array2 where
  "dR = (case projr (log_grid 100 100) of (P, R, dP', dR', x, y) \<Rightarrow> dR')"

definition grid_x :: "real list" where
  "grid_x = (case projr (log_grid 100 100) of (P, R, dP', dR', x, y) \<Rightarrow> x)"

definition grid_y :: "real list" where
  "grid_y = (case projr (log_grid 100 100) of (P, R, dP', dR', x, y) \<Rightarrow> y)"

section \<open>The shape function and its normalisation\<close>

text \<open>
  \<^verbatim>\<open>ScaledRadius(R, M, inverse)\<close>; the module-level \<^verbatim>\<open>Rsplit = ScaledRadius()\<close> is
  \<open>ScaledRadius 2 1 False\<close>, and the driver rebinds \<^verbatim>\<open>Rsplit\<close> once per mass bin.
\<close>

definition ScaledRadius :: "real \<Rightarrow> real \<Rightarrow> bool \<Rightarrow> real" where
  "ScaledRadius R M inverse' =
     (let power = (if inverse' then - (1 / 4) else 1 / 4) in R * M powr power)"

text \<open>
  What a mass bin fixes for the likelihood: the radius split \<^verbatim>\<open>Rsplit\<close> and the
  interpolant \<^verbatim>\<open>SummedEtaInterp\<close> of the summed survey completeness (an object of
  scipy, called on the grid coordinates).
\<close>

record env =
  Rsplit :: real
  SummedEtaInterp :: "real \<Rightarrow> real \<Rightarrow> real"

text \<open>
  The local variables of \<^verbatim>\<open>g\<close>, in the order the code computes them. The power
  \<^verbatim>\<open>**\<close> is \<open>powr\<close>, with which it agrees on a positive base; \<^verbatim>\<open>np.log10\<close> is
  \<open>log 10\<close> and \<^verbatim>\<open>np.log\<close> is \<open>ln\<close>. \<^verbatim>\<open>Rmin\<close>, \<^verbatim>\<open>Rmax\<close> and
  \<^verbatim>\<open>Rsplit\<close> are globals of the notebook.
\<close>

definition g_occ_SEMN :: "real \<Rightarrow> fparam \<Rightarrow> real" where
  "g_occ_SEMN P fparam =
     (case fparam of (F0, P_break, beta_1, beta_2, P_central, chi_1, chi_2, s) \<Rightarrow>
        (P / P_break) powr (if P < P_break then beta_1 else beta_2))"

definition g_sx :: "real \<Rightarrow> fparam \<Rightarrow> real" where
  "g_sx P fparam =
     (case fparam of (F0, P_break, beta_1, beta_2, P_central, chi_1, chi_2, s) \<Rightarrow>
        0.5 + 0.5 * tanh ((log 10 P - log 10 P_central) / log 10 s))"

definition g_X :: "real \<Rightarrow> fparam \<Rightarrow> real" where
  "g_X P fparam =
     (case fparam of (F0, P_break, beta_1, beta_2, P_central, chi_1, chi_2, s) \<Rightarrow>
        chi_1 * (1 - g_sx P fparam) + g_sx P fparam * chi_2)"

definition g_g2 :: "env \<Rightarrow> real \<Rightarrow> fparam \<Rightarrow> real" where
  "g_g2 e P fparam =
     (let X = g_X P fparam;
          a = ln Rmin; b = ln (Rsplit e); c = ln Rmax
      in X * (c - b) / ((b - a) + X * (c - b) - X * (b - a)))"

definition g_split :: "env \<Rightarrow> real \<Rightarrow> real \<Rightarrow> fparam \<Rightarrow> real" where
  "g_split e P R fparam = (if R < Rsplit e then g_g2 e P fparam else 1 - g_g2 e P fparam)"

definition g :: "env \<Rightarrow> real \<Rightarrow> real \<Rightarrow> fparam \<Rightarrow> real" where
  "g e P R fparam = g_split e P R fparam / R * g_occ_SEMN P fparam"

text \<open>\<^verbatim>\<open>g\<close> applied to two arrays of one shape, elementwise.\<close>

definition g_arr :: "env \<Rightarrow> array2 \<Rightarrow> array2 \<Rightarrow> fparam \<Rightarrow> array2" where
  "g_arr e P R fparam = arr_map2 (\<lambda>p r. g e p r fparam) P R"

definition function_Cn :: "env \<Rightarrow> fparam \<Rightarrow> real" where
  "function_Cn e fparam = 1 / np_sum (arr_mul (arr_mul (g_arr e intP intR fparam) dP) dR)"

definition df :: "env \<Rightarrow> real \<Rightarrow> real \<Rightarrow> fparam \<Rightarrow> real" where
  "df e P R fparam =
     (let F0 = fst fparam; Cn = function_Cn e fparam in F0 * Cn * g e P R fparam)"

definition df_arr :: "env \<Rightarrow> array2 \<Rightarrow> array2 \<Rightarrow> fparam \<Rightarrow> array2" where
  "df_arr e P R fparam = arr_map2 (\<lambda>p r. df e p r fparam) P R"

section \<open>Expected detections, likelihood, prior and posterior\<close>

text \<open>\<^verbatim>\<open>OneRunCompletenessGrid = SummedEtaInterp(x,y)\<close>, of shape \<open>(len y, len x)\<close>.\<close>

definition OneRunCompletenessGrid :: "env \<Rightarrow> array2" where
  "OneRunCompletenessGrid e = map (\<lambda>yj. map (\<lambda>xi. SummedEtaInterp e xi yj) grid_x) grid_y"

definition function_Nexp :: "env \<Rightarrow> fparam \<Rightarrow> real" where
  "function_Nexp e fparam =
     (let F0 = fst fparam;
          Cn = function_Cn e fparam;
          integral = np_sum (arr_mul (arr_mul (arr_mul (OneRunCompletenessGrid e)
                       (g_arr e intP intR fparam)) dP) dR);
          Nexp = F0 * Cn * integral
      in Nexp)"

definition function_Npl :: "real list \<Rightarrow> real list \<Rightarrow> error + nat" where
  "function_Npl P R = (if length P = length R then Inr (length P) else Inl AssertionError)"

definition lnL :: "env \<Rightarrow> fparam \<Rightarrow> real list \<Rightarrow> real list \<Rightarrow> error + real" where
  "lnL e fparam P R =
     (case function_Npl P R of
        Inl err \<Rightarrow> Inl err
      | Inr Npl \<Rightarrow>
          let Nexp = function_Nexp e fparam;
              F0 = fst fparam;
              Cn = function_Cn e fparam;
              g_term = sum_list (map ln (map2 (\<lambda>p r. g e p r fparam) P R))
          in Inr (- Nexp + real Npl * ln F0 + real Npl * ln Cn + g_term))"

text \<open>
  The two joint constraints of \<^verbatim>\<open>log_prior\<close> compare float64 results that lie
  arbitrarily close together, so there the rounding decides and the float64 operations
  are a parameter: the value \<^verbatim>\<open>np.log10\<close> returns, and the rounded difference and
  sum of two float64 numbers. The products \<^verbatim>\<open>2*Pmin\<close> and \<^verbatim>\<open>0.5*Pmax\<close> are
  exact. The other tests compare the parameters with constants; \<^verbatim>\<open>1-chi_1\<close> is
  exact for a float64 \<open>chi_1\<close> from 1/2 to 1 and is rounded to no less than 1/2 below,
  so that the test \<^verbatim>\<open>(1-chi_1) < chi_1\<close> has the outcome of the exact one.
\<close>

record float_ops =
  fl_log10 :: "real \<Rightarrow> real"
  fl_sub :: "real \<Rightarrow> real \<Rightarrow> real"
  fl_add :: "real \<Rightarrow> real \<Rightarrow> real"

definition log_prior :: "float_ops \<Rightarrow> fparam \<Rightarrow> npfloat" where
  "log_prior F fparam =
     (case fparam of (F0, P_break, beta_1, beta_2, P_cent, chi_1, chi_2, s) \<Rightarrow>
        if 0.05 < F0 \<and> F0 < 5 \<and>
           2 < P_break \<and> P_break < 20 \<and>
           - 2 < beta_1 \<and> beta_1 < 5 \<and>
           - 2 < beta_2 \<and> beta_2 < 5 \<and>
           4 < P_cent \<and> P_cent < 50 \<and>
           (1 - chi_1) < chi_1 \<and>
           0 < chi_1 \<and> chi_1 < 1 \<and>
           0 < chi_2 \<and> chi_2 < 0.5 \<and>
           1 < s \<and> s < 5 \<and>
           fl_log10 F (2 * Pmin) \<le> fl_sub F (fl_log10 F P_cent) (fl_log10 F s) \<and>
           fl_log10 F (0.5 * Pmax) \<ge> fl_add F (fl_log10 F P_cent) (fl_log10 F s)
        then Fin 0.0
        else NegInf)"

definition log_posterior ::
  "float_ops \<Rightarrow> env \<Rightarrow> fparam \<Rightarrow> real list \<Rightarrow> real list \<Rightarrow> error + npfloat" where
  "log_posterior F e fparam P R =
     (let lp = log_prior F fparam
      in if \<not> isfinite lp then Inr NegInf
         else (case lnL e fparam P R of
                 Inl err \<Rightarrow> Inl err
               | Inr l \<Rightarrow> Inr (np_add lp (Fin l))))"

text \<open>
  Float64 arithmetic without rounding, and float64 arithmetic at the arguments of two
  parameter vectors on the edge of the joint constraints: the float64 values of
  \<^verbatim>\<open>np.log10\<close> at 2, 4, 8, 2.5, 20.000000000000004 and 50, the rounded difference
  \<^verbatim>\<open>np.log10(8) - np.log10(2)\<close> and the rounded sum
  \<^verbatim>\<open>np.log10(20.000000000000004) + np.log10(2.5)\<close>, each written as the fraction
  it is. Other arguments are not tabulated.
\<close>

definition exact_ops :: float_ops where
  "exact_ops = \<lparr>fl_log10 = log 10, fl_sub = (\<lambda>a b. a - b), fl_add = (\<lambda>a b. a + b)\<rparr>"



section \<open>The sampling driver, one mass bin\<close>

text \<open>
  The random numbers of the driver come from NumPy's global generator. Its state is
  threaded explicitly: a value of \<open>'g rng\<close> gives, for a generator with states of type
  \<open>'g\<close>, the state \<^verbatim>\<open>np.random.seed(n)\<close> installs, and the results of
  \<^verbatim>\<open>np.random.randn(d0, d1)\<close> and of
  \<^verbatim>\<open>np.random.choice([True,False], size, p=[rel, 1-rel])\<close> together with the state
  they leave behind. The calls between the walker initialisation and the resampling
  (the completeness provider, the catalogue tables) are taken not to touch the
  generator.
\<close>

record 'g rng =
  rng_seed :: "nat \<Rightarrow> 'g"
  rng_randn :: "'g \<Rightarrow> nat \<Rightarrow> nat \<Rightarrow> real list list \<times> 'g"
  rng_choice :: "'g \<Rightarrow> nat \<Rightarrow> real \<Rightarrow> bool list \<times> 'g"

text \<open>The initial guesses, one row per mass bin.\<close>

definition guess :: "real list list" where
  "guess = [[0.680, 9.223, 0.639, -0.868, 11.419, 0.847, 0.395, 2.496],
            [0.952, 13.224, 0.220, -1.121, 7.555, 0.756, 0.342, 1.505],
            [0.742, 5.764, 1.199, -0.663, 11.013, 0.739, 0.375, 1.977],
            [0.667, 7.006, 0.907, -0.856, 13.205, 0.826, 0.278, 2.524],
            [0.656, 12.123, 0.404, -1.072, 16.804, 0.838, 0.327, 2.262],
            [0.537, 7.144, 1.833, -0.730, 17.025, 0.879, 0.388, 2.147]]"

text \<open>
  Initialisation of all walkers: the seed, then
  \<^verbatim>\<open>pos = initial + 1e-4 * np.random.randn(nwalk, len(initial))\<close>, the list
  \<open>initial\<close> broadcast over the rows of the noise.
\<close>

definition init_walkers :: "'g rng \<Rightarrow> 'g \<Rightarrow> real list \<Rightarrow> real list list \<times> 'g" where
  "init_walkers G st initial =
     (let nwalk = 16;
          st1 = rng_seed G 42;
          (noise, st2) = rng_randn G st1 nwalk (length initial);
          pos = map (\<lambda>row. map2 (\<lambda>a n. a + 0.0001 * n) initial row) noise
      in (pos, st2))"

text \<open>
  \<^verbatim>\<open>use_array\<close>: one call of \<^verbatim>\<open>np.random.choice\<close> per candidate, in the order of
  \<^verbatim>\<open>sample_reliability\<close>, each of \<open>num_draws\<close> outcomes.
\<close>

fun draw_use_array :: "'g rng \<Rightarrow> 'g \<Rightarrow> nat \<Rightarrow> real list \<Rightarrow> bool list list \<times> 'g" where
  "draw_use_array G st num_draws [] = ([], st)"
| "draw_use_array G st num_draws (rel # rels) =
     (let (row, st1) = rng_choice G st num_draws rel;
          (rows, st2) = draw_use_array G st1 num_draws rels
      in (row # rows, st2))"

text \<open>\<^verbatim>\<open>Kepler_P[use_array[:,draw]]\<close>: the entries whose row of the mask is set at \<open>draw\<close>.\<close>

definition mask_select :: "real list \<Rightarrow> bool list list \<Rightarrow> nat \<Rightarrow> real list" where
  "mask_select K use_array draw = map fst (filter (\<lambda>(v, row). row ! draw) (zip K use_array))"

text \<open>
  One run of the sampler, as the driver starts it: the ensemble handed to
  \<^verbatim>\<open>run_mcmc\<close> and the sample given to the posterior. The sampler copies the
  ensemble it is given and is a pure function of it.
\<close>

record sampler_call =
  call_pos :: "real list list"
  call_P :: "real list"
  call_R :: "real list"

text \<open>The draw loop, with the loop state \<open>(tracker, calls)\<close>.\<close>

fun draw_loop ::
  "real list list \<Rightarrow> real list \<Rightarrow> real list \<Rightarrow> bool list list \<Rightarrow> nat list \<Rightarrow>
   (nat \<times> nat) list \<times> sampler_call list \<Rightarrow> (nat \<times> nat) list \<times> sampler_call list" where
  "draw_loop pos Kepler_P Kepler_R use_array [] acc = acc"
| "draw_loop pos Kepler_P Kepler_R use_array (draw # draws) (tracker, calls) =
     (let this_Kepler_P = mask_select Kepler_P use_array draw;
          this_Kepler_R = mask_select Kepler_R use_array draw;
          tracker1 = tracker @ [(draw, length this_Kepler_P)];
          calls1 = calls @ [\<lparr>call_pos = pos, call_P = this_Kepler_P, call_R = this_Kepler_R\<rparr>]
      in draw_loop pos Kepler_P Kepler_R use_array draws (tracker1, calls1))"

text \<open>
  The body of the loop over mass bins, from the seed to the last draw: the result is
  \<open>(pos, use_array, tracker, calls)\<close> and the state of the generator afterwards.
\<close>

definition run_bin ::
  "'g rng \<Rightarrow> 'g \<Rightarrow> real list \<Rightarrow> real list \<Rightarrow> real list \<Rightarrow> real list \<Rightarrow> nat \<Rightarrow>
   (real list list \<times> bool list list \<times> (nat \<times> nat) list \<times> sampler_call list) \<times> 'g" where
  "run_bin G st initial Kepler_P Kepler_R sample_reliability num_draws =
     (let (pos, st1) = init_walkers G st initial;
          (use_array, st2) = draw_use_array G st1 num_draws sample_reliability;
          (tracker, calls) = draw_loop pos Kepler_P Kepler_R use_array [0..<num_draws] ([], [])
      in ((pos, use_array, tracker, calls), st2))"

text \<open>The walker ensemble and the resampling mask of a run of \<open>run_bin\<close>.\<close>

definition bin_pos ::
  "(real list list \<times> bool list list \<times> (nat \<times> nat) list \<times> sampler_call list) \<times> 'g \<Rightarrow> real list list" where
  "bin_pos r = (case r of ((pos, use_array, tracker, calls), st) \<Rightarrow> pos)"

definition bin_use_array ::
  "(real list list \<times> bool list list \<times> (nat \<times> nat) list \<times> sampler_call list) \<times> 'g \<Rightarrow> bool list list" where
  "bin_use_array r = (case r of ((pos, use_array, tracker, calls), st) \<Rightarrow> use_array)"

section \<open>The specification's formulas\<close>

text \<open>
  The support of the prior, the normalisation, the expected count and the
  log-likelihood as the specification writes them: interval memberships, and sums
  over the cells \<open>(j, i)\<close> of the 100 by 100 grid and over the observed pairs. The
  eight bounds on the components come first.
\<close>

definition prior_box :: "fparam \<Rightarrow> bool" where
  "prior_box fparam =
     (case fparam of (F0, P_break, beta_1, beta_2, P_central, chi_1, chi_2, s) \<Rightarrow>
        F0 \<in> {0.05<..<5} \<and> P_break \<in> {2<..<20} \<and> beta_1 \<in> {-2<..<5} \<and>
        beta_2 \<in> {-2<..<5} \<and> P_central \<in> {4<..<50} \<and>
        chi_1 \<in> {0<..<1} \<and> chi_1 > 1 - chi_1 \<and> chi_2 \<in> {0<..<0.5} \<and> s \<in> {1<..<5})"

text \<open>
  The two joint constraints over the reals, with a margin \<open>m\<close>: kept by at least \<open>m\<close>
  when \<open>m\<close> is positive, missed by at most \<open>- m\<close> when it is negative.
\<close>

definition joint_margin :: "real \<Rightarrow> fparam \<Rightarrow> bool" where
  "joint_margin m fparam =
     (case fparam of (F0, P_break, beta_1, beta_2, P_central, chi_1, chi_2, s) \<Rightarrow>
        log 10 (2 * Pmin) + m \<le> log 10 P_central - log 10 s \<and>
        log 10 (0.5 * Pmax) - m \<ge> log 10 P_central + log 10 s)"

text \<open>The support as the specification lists it, the logarithms those of the reals.\<close>

definition prior_support_exact :: "fparam \<Rightarrow> bool" where
  "prior_support_exact fparam =
     (case fparam of (F0, P_break, beta_1, beta_2, P_central, chi_1, chi_2, s) \<Rightarrow>
        prior_box fparam \<and>
        log 10 (2 * Pmin) \<le> log 10 P_central - log 10 s \<and>
        log 10 (0.5 * Pmax) \<ge> log 10 P_central + log 10 s)"

text \<open>The same support with the joint constraints as float64 evaluates them.\<close>

definition prior_support :: "float_ops \<Rightarrow> fparam \<Rightarrow> bool" where
  "prior_support F fparam =
     (case fparam of (F0, P_break, beta_1, beta_2, P_central, chi_1, chi_2, s) \<Rightarrow>
        prior_box fparam \<and>
        fl_log10 F (2 * Pmin) \<le> fl_sub F (fl_log10 F P_central) (fl_log10 F s) \<and>
        fl_log10 F (0.5 * Pmax) \<ge> fl_add F (fl_log10 F P_central) (fl_log10 F s))"

text \<open>
  Float64 operations whose results are within \<open>eps\<close> of the exact ones. The values
  at hand are below 2 in size, where rounding to nearest and a logarithm good to a
  few units in the last place keep \<open>eps\<close> below \<open>2 ^ -50\<close>.
\<close>

definition fl_accurate :: "real \<Rightarrow> float_ops \<Rightarrow> bool" where
  "fl_accurate eps F \<longleftrightarrow>
     (\<forall>x. 0 < x \<longrightarrow> \<bar>fl_log10 F x - log 10 x\<bar> \<le> eps) \<and>
     (\<forall>a b. \<bar>fl_sub F a b - (a - b)\<bar> \<le> eps) \<and>
     (\<forall>a b. \<bar>fl_add F a b - (a + b)\<bar> \<le> eps)"

text \<open>
  The parameter vectors of the data model as far as the sign of \<open>g\<close> needs them: a
  positive break period and mixture ratios strictly between 0 and 1.
\<close>

definition shape_domain :: "fparam \<Rightarrow> bool" where
  "shape_domain fparam =
     (case fparam of (F0, P_break, beta_1, beta_2, P_central, chi_1, chi_2, s) \<Rightarrow>
        0 < P_break \<and> 0 < chi_1 \<and> chi_1 < 1 \<and> 0 < chi_2 \<and> chi_2 < 1)"

definition grid_sum :: "(real \<Rightarrow> real \<Rightarrow> real) \<Rightarrow> real" where
  "grid_sum f = (\<Sum>j<100. \<Sum>i<100. f (intP ! j ! i) (intR ! j ! i) * dP ! j ! i * dR ! j ! i)"

definition Cn_spec :: "env \<Rightarrow> fparam \<Rightarrow> real" where
  "Cn_spec e fparam = 1 / grid_sum (\<lambda>P R. g e P R fparam)"

definition Nexp_spec :: "env \<Rightarrow> fparam \<Rightarrow> real" where
  "Nexp_spec e fparam =
     fst fparam * Cn_spec e fparam * grid_sum (\<lambda>P R. SummedEtaInterp e P R * g e P R fparam)"

definition lnL_spec :: "env \<Rightarrow> fparam \<Rightarrow> real list \<Rightarrow> real list \<Rightarrow> real" where
  "lnL_spec e fparam P R =
     - Nexp_spec e fparam + real (length P) * ln (fst fparam)
     + real (length P) * ln (Cn_spec e fparam)
     + (\<Sum>i<length P. ln (g e (P ! i) (R ! i) fparam))"

text \<open>The constant ratio between adjacent samples of \<open>geomspace a b n\<close>.\<close>

definition geo_ratio :: "real \<Rightarrow> real \<Rightarrow> nat \<Rightarrow> real" where
  "geo_ratio a b n = exp ((ln b - ln a) / real (n - 1))"

text \<open>An array of \<open>ny\<close> rows of \<open>nx\<close> entries each.\<close>

definition has_shape :: "nat \<Rightarrow> nat \<Rightarrow> 'a list list \<Rightarrow> bool" where
  "has_shape ny nx A \<longleftrightarrow> length A = ny \<and> (\<forall>j<ny. length (A ! j) = nx)"

section \<open>Arrays and the integration grid\<close>

lemma length_geomspace: "length (geomspace a b n) = n"
  by (simp add: geomspace_def)

lemma nth_geomspace:
  "i < n \<Longrightarrow> geomspace a b n ! i = a * (b / a) powr (real i / real (n - 1))"
  by (simp add: geomspace_def)

lemma geomspace_ratio:
  assumes "i < n" "0 < a" "0 < b"
  shows "geomspace a b n ! i = a * exp ((ln b - ln a) / real (n - 1)) ^ i"
proof -
  have "(b / a) powr (real i / real (n - 1)) = exp ((ln b - ln a) / real (n - 1)) ^ i"
    using assms by (simp add: powr_def ln_div exp_of_nat_mult [symmetric] field_simps)
  then show ?thesis using assms by (simp add: nth_geomspace)
qed

lemma geomspace_pos: "i < n \<Longrightarrow> 0 < a \<Longrightarrow> 0 < b \<Longrightarrow> 0 < geomspace a b n ! i"
  by (simp add: geomspace_ratio)

lemma geomspace_ge: 
  assumes "i < n" "0 < a" "a \<le> b" shows "a \<le> geomspace a b n ! i"
proof -
  have "0 \<le> (ln b - ln a) / real (n - 1)" using assms by simp
  then have "1 \<le> exp ((ln b - ln a) / real (n - 1)) ^ i"
    by (simp add: one_le_power)
  then show ?thesis using assms by (simp add: geomspace_ratio)
qed

lemma has_shape_arr_map2:
  "has_shape ny nx A \<Longrightarrow> has_shape ny nx B \<Longrightarrow> has_shape ny nx (arr_map2 f A B)"
  by (simp add: has_shape_def arr_map2_def)

lemma nth_arr_map2:
  "has_shape ny nx A \<Longrightarrow> has_shape ny nx B \<Longrightarrow> j < ny \<Longrightarrow> i < nx \<Longrightarrow>
   arr_map2 f A B ! j ! i = f (A ! j ! i) (B ! j ! i)"
  by (simp add: has_shape_def arr_map2_def)

lemma has_shape_arr_mul:
  "has_shape ny nx A \<Longrightarrow> has_shape ny nx B \<Longrightarrow> has_shape ny nx (arr_mul A B)"
  by (simp add: arr_mul_def has_shape_arr_map2)

lemma nth_arr_mul:
  "has_shape ny nx A \<Longrightarrow> has_shape ny nx B \<Longrightarrow> j < ny \<Longrightarrow> i < nx \<Longrightarrow>
   arr_mul A B ! j ! i = A ! j ! i * B ! j ! i"
  by (simp add: arr_mul_def nth_arr_map2)

lemma np_sum_index:
  assumes "has_shape ny nx A"
  shows "np_sum A = (\<Sum>j<ny. \<Sum>i<nx. A ! j ! i)"
proof -
  have "np_sum A = (\<Sum>j<length A. sum_list (A ! j))"
    by (simp add: np_sum_def sum_list_sum_nth atLeast0LessThan)
  also have "\<dots> = (\<Sum>j<ny. \<Sum>i<nx. A ! j ! i)"
    using assms by (simp add: has_shape_def sum_list_sum_nth atLeast0LessThan)
  finally show ?thesis .
qed

lemma geo_ratio_gt1: "0 < a \<Longrightarrow> a < b \<Longrightarrow> 2 \<le> n \<Longrightarrow> 1 < geo_ratio a b n"
  by (simp add: geo_ratio_def)

lemma log_grid_Inr:
  assumes "2 \<le> nx" "2 \<le> ny"
  shows "log_grid nx ny =
     Inr (replicate ny (geomspace Pmin Pmax nx),
          map (\<lambda>v. replicate nx v) (geomspace Rmin Rmax ny),
          replicate ny (map (\<lambda>p. p * (geo_ratio Pmin Pmax nx - 1)) (geomspace Pmin Pmax nx)),
          map (\<lambda>v. replicate nx (v * (geo_ratio Rmin Rmax ny - 1))) (geomspace Rmin Rmax ny),
          geomspace Pmin Pmax nx, geomspace Rmin Rmax ny)"
proof -
  have x0: "geomspace Pmin Pmax nx ! 0 = Pmin" and xn: "geomspace Pmin Pmax nx ! (nx - 1) = Pmax"
    using assms by (simp_all add: nth_geomspace Pmin_def Pmax_def)
  have y0: "geomspace Rmin Rmax ny ! 0 = Rmin" and yn: "geomspace Rmin Rmax ny ! (ny - 1) = Rmax"
    using assms by (simp_all add: nth_geomspace Rmin_def Rmax_def)
  have xn': "geomspace Pmin Pmax nx ! (nx - Suc 0) = Pmax" using xn by simp
  have yn': "geomspace Rmin Rmax ny ! (ny - Suc 0) = Rmax" using yn by simp
  show ?thesis
    using assms
    by (simp add: log_grid_def GetRange_def meshgrid_def Let_def x0 xn' y0 yn'
        length_geomspace geo_ratio_def map_replicate)
qed

lemma log_grid_default:
  "log_grid 100 100 =
     Inr (replicate 100 (geomspace Pmin Pmax 100),
          map (\<lambda>v. replicate 100 v) (geomspace Rmin Rmax 100),
          replicate 100 (map (\<lambda>p. p * (geo_ratio Pmin Pmax 100 - 1)) (geomspace Pmin Pmax 100)),
          map (\<lambda>v. replicate 100 (v * (geo_ratio Rmin Rmax 100 - 1))) (geomspace Rmin Rmax 100),
          geomspace Pmin Pmax 100, geomspace Rmin Rmax 100)"
  by (rule log_grid_Inr) simp_all

lemma grid_x_eq: "grid_x = geomspace Pmin Pmax 100"
  by (simp add: grid_x_def log_grid_default)

lemma grid_y_eq: "grid_y = geomspace Rmin Rmax 100"
  by (simp add: grid_y_def log_grid_default)

lemma intP_eq: "intP = replicate 100 grid_x"
  by (simp add: intP_def grid_x_eq log_grid_default)

lemma intR_eq: "intR = map (\<lambda>v. replicate 100 v) grid_y"
  by (simp add: intR_def grid_y_eq log_grid_default)

lemma dP_eq: "dP = replicate 100 (map (\<lambda>p. p * (geo_ratio Pmin Pmax 100 - 1)) grid_x)"
  by (simp add: dP_def grid_x_eq log_grid_default)

lemma dR_eq: "dR = map (\<lambda>v. replicate 100 (v * (geo_ratio Rmin Rmax 100 - 1))) grid_y"
  by (simp add: dR_def grid_y_eq log_grid_default)

lemma length_grid_x: "length grid_x = 100" by (simp add: grid_x_eq length_geomspace)
lemma length_grid_y: "length grid_y = 100" by (simp add: grid_y_eq length_geomspace)

lemma shape_intP: "has_shape 100 100 intP"
  by (simp add: has_shape_def intP_eq length_grid_x)
lemma shape_intR: "has_shape 100 100 intR"
  by (simp add: has_shape_def intR_eq length_grid_y)
lemma shape_dP: "has_shape 100 100 dP"
  by (simp add: has_shape_def dP_eq length_grid_x)
lemma shape_dR: "has_shape 100 100 dR"
  by (simp add: has_shape_def dR_eq length_grid_y)

lemma nth_intP: "j < 100 \<Longrightarrow> i < 100 \<Longrightarrow> intP ! j ! i = grid_x ! i"
  by (simp add: intP_eq)
lemma nth_intR: "j < 100 \<Longrightarrow> i < 100 \<Longrightarrow> intR ! j ! i = grid_y ! j"
  by (simp add: intR_eq length_grid_y)
lemma nth_dP: "j < 100 \<Longrightarrow> i < 100 \<Longrightarrow> dP ! j ! i = grid_x ! i * (geo_ratio Pmin Pmax 100 - 1)"
  by (simp add: dP_eq length_grid_x)
lemma nth_dR: "j < 100 \<Longrightarrow> i < 100 \<Longrightarrow> dR ! j ! i = grid_y ! j * (geo_ratio Rmin Rmax 100 - 1)"
  by (simp add: dR_eq length_grid_y)

lemma grid_x_bounds: "i < 100 \<Longrightarrow> 2 \<le> grid_x ! i"
  using geomspace_ge [of i 100 Pmin Pmax] by (simp add: grid_x_eq Pmin_def Pmax_def)
lemma grid_y_bounds: "j < 100 \<Longrightarrow> 1 \<le> grid_y ! j"
  using geomspace_ge [of j 100 Rmin Rmax] by (simp add: grid_y_eq Rmin_def Rmax_def)

lemma dP_pos: "j < 100 \<Longrightarrow> i < 100 \<Longrightarrow> 0 < dP ! j ! i"
  using grid_x_bounds [of i] geo_ratio_gt1 [of Pmin Pmax 100]
  by (simp add: nth_dP Pmin_def Pmax_def)
lemma dR_pos: "j < 100 \<Longrightarrow> i < 100 \<Longrightarrow> 0 < dR ! j ! i"
  using grid_y_bounds [of j] geo_ratio_gt1 [of Rmin Rmax 100]
  by (simp add: nth_dR Rmin_def Rmax_def)

lemma geomspace_last: "2 \<le> n \<Longrightarrow> 0 < a \<Longrightarrow> 0 < b \<Longrightarrow> geomspace a b n ! (n - 1) = b"
  by (simp add: nth_geomspace)

lemma geomspace_geo_ratio:
  "i < n \<Longrightarrow> 0 < a \<Longrightarrow> 0 < b \<Longrightarrow> geomspace a b n ! i = a * geo_ratio a b n ^ i"
  by (simp add: geomspace_ratio geo_ratio_def)

lemma geomspace_le:
  assumes "i < n" "0 < a" "a \<le> b" shows "geomspace a b n ! i \<le> b"
proof (cases "2 \<le> n")
  case True
  have r: "1 \<le> geo_ratio a b n" using assms by (simp add: geo_ratio_def)
  have "geo_ratio a b n ^ i \<le> geo_ratio a b n ^ (n - 1)"
    using assms(1) r by (intro power_increasing) simp_all
  then have "a * geo_ratio a b n ^ i \<le> a * geo_ratio a b n ^ (n - 1)"
    using assms(2) by simp
  also have "a * geo_ratio a b n ^ (n - 1) = b"
    using geomspace_geo_ratio [of "n - 1" n a b] geomspace_last [of n a b] True assms by simp
  finally have "a * geo_ratio a b n ^ i \<le> b" .
  moreover have "geomspace a b n ! i = a * geo_ratio a b n ^ i"
    using assms by (simp only: geomspace_geo_ratio)
  ultimately show ?thesis by (simp only:)
next
  case False
  then have "i = 0" using assms(1) by simp
  then show ?thesis using assms by (simp add: nth_geomspace)
qed

text \<open>
  Claim C7. For at least two samples per axis \<open>log_grid\<close> returns, without error,
  coordinates in geometric progression from \<open>Pmin = 2\<close> to \<open>Pmax = 100\<close> and from
  \<open>Rmin = 1\<close> to \<open>Rmax = 3.5\<close>, their meshes, and widths that are the coordinate times
  \<open>r - 1\<close>, where \<open>r\<close> is the one end-to-end ratio
  \<open>exp ((ln max - ln min) / (n - 1))\<close> of the axis, the same for every cell.
\<close>

theorem log_grid_C7:
  assumes "2 \<le> nx" "2 \<le> ny"
  shows "\<exists>P R dP' dR' x y.
      log_grid nx ny = Inr (P, R, dP', dR', x, y)
    \<and> GetRange = (2, 100, 1, 7 / 2)
    \<and> geo_ratio Pmin Pmax nx = exp ((ln Pmax - ln Pmin) / real (nx - 1))
    \<and> geo_ratio Rmin Rmax ny = exp ((ln Rmax - ln Rmin) / real (ny - 1))
    \<and> length x = nx \<and> length y = ny
    \<and> x ! 0 = Pmin \<and> x ! (nx - 1) = Pmax \<and> y ! 0 = Rmin \<and> y ! (ny - 1) = Rmax
    \<and> (\<forall>i<nx. x ! i = Pmin * geo_ratio Pmin Pmax nx ^ i \<and> Pmin \<le> x ! i \<and> x ! i \<le> Pmax)
    \<and> (\<forall>j<ny. y ! j = Rmin * geo_ratio Rmin Rmax ny ^ j \<and> Rmin \<le> y ! j \<and> y ! j \<le> Rmax)
    \<and> has_shape ny nx P \<and> has_shape ny nx R \<and> has_shape ny nx dP' \<and> has_shape ny nx dR'
    \<and> (\<forall>j<ny. \<forall>i<nx.
          P ! j ! i = x ! i \<and> R ! j ! i = y ! j
        \<and> dP' ! j ! i = P ! j ! i * (geo_ratio Pmin Pmax nx - 1)
        \<and> dR' ! j ! i = R ! j ! i * (geo_ratio Rmin Rmax ny - 1))"
proof -
  define x where "x = geomspace Pmin Pmax nx"
  define y where "y = geomspace Rmin Rmax ny"
  have lx: "length x = nx" and ly: "length y = ny"
    by (simp_all add: x_def y_def length_geomspace)
  have P: "0 < Pmin" "Pmin \<le> Pmax" "0 < Pmax" and R: "0 < Rmin" "Rmin \<le> Rmax" "0 < Rmax"
    by (simp_all add: Pmin_def Pmax_def Rmin_def Rmax_def)
  have n0: "0 < nx" "0 < ny" using assms by simp_all
  have ends: "x ! 0 = Pmin" "x ! (nx - 1) = Pmax" "y ! 0 = Rmin" "y ! (ny - 1) = Rmax"
    using assms P R n0 geomspace_last [of nx Pmin Pmax] geomspace_last [of ny Rmin Rmax]
    by (simp_all add: x_def y_def nth_geomspace)
  have xs: "x ! i = Pmin * geo_ratio Pmin Pmax nx ^ i \<and> Pmin \<le> x ! i \<and> x ! i \<le> Pmax"
    if "i < nx" for i
    using that P geomspace_geo_ratio [of i nx Pmin Pmax] geomspace_ge [of i nx Pmin Pmax]
      geomspace_le [of i nx Pmin Pmax]
    by (simp add: x_def)
  have ys: "y ! j = Rmin * geo_ratio Rmin Rmax ny ^ j \<and> Rmin \<le> y ! j \<and> y ! j \<le> Rmax"
    if "j < ny" for j
    using that R geomspace_geo_ratio [of j ny Rmin Rmax] geomspace_ge [of j ny Rmin Rmax]
      geomspace_le [of j ny Rmin Rmax]
    by (simp add: y_def)
  let ?P = "replicate ny x"
  let ?R = "map (\<lambda>v. replicate nx v) y"
  let ?dP = "replicate ny (map (\<lambda>p. p * (geo_ratio Pmin Pmax nx - 1)) x)"
  let ?dR = "map (\<lambda>v. replicate nx (v * (geo_ratio Rmin Rmax ny - 1))) y"
  have grid: "log_grid nx ny = Inr (?P, ?R, ?dP, ?dR, x, y)"
    unfolding x_def y_def by (rule log_grid_Inr [OF assms])
  have shapes: "has_shape ny nx ?P" "has_shape ny nx ?R" "has_shape ny nx ?dP" "has_shape ny nx ?dR"
    by (simp_all add: has_shape_def lx ly)
  have cells: "?P ! j ! i = x ! i \<and> ?R ! j ! i = y ! j
        \<and> ?dP ! j ! i = ?P ! j ! i * (geo_ratio Pmin Pmax nx - 1)
        \<and> ?dR ! j ! i = ?R ! j ! i * (geo_ratio Rmin Rmax ny - 1)"
    if "j < ny" "i < nx" for j i
    using that by (simp add: lx ly)
  have range: "GetRange = (2, 100, 1, 7 / 2)"
    by (simp add: GetRange_def Pmin_def Pmax_def Rmin_def Rmax_def)
  have r: "geo_ratio Pmin Pmax nx = exp ((ln Pmax - ln Pmin) / real (nx - 1))"
    "geo_ratio Rmin Rmax ny = exp ((ln Rmax - ln Rmin) / real (ny - 1))"
    by (rule geo_ratio_def)+
  have xs': "\<forall>i<nx. x ! i = Pmin * geo_ratio Pmin Pmax nx ^ i \<and> Pmin \<le> x ! i \<and> x ! i \<le> Pmax"
    using xs by blast
  have ys': "\<forall>j<ny. y ! j = Rmin * geo_ratio Rmin Rmax ny ^ j \<and> Rmin \<le> y ! j \<and> y ! j \<le> Rmax"
    using ys by blast
  have cells': "\<forall>j<ny. \<forall>i<nx. ?P ! j ! i = x ! i \<and> ?R ! j ! i = y ! j
        \<and> ?dP ! j ! i = ?P ! j ! i * (geo_ratio Pmin Pmax nx - 1)
        \<and> ?dR ! j ! i = ?R ! j ! i * (geo_ratio Rmin Rmax ny - 1)"
    using cells by blast
  show ?thesis
    by (rule exI [of _ ?P], rule exI [of _ ?R], rule exI [of _ ?dP], rule exI [of _ ?dR],
        rule exI [of _ x], rule exI [of _ y])
       (intro conjI grid range r lx ly ends xs' ys' shapes cells')
qed

theorem log_grid_C7_witness:
  "(2::nat) \<le> 2 \<and> (2::nat) \<le> 3
   \<and> (\<exists>P R dP' dR' x y. log_grid 2 3 = Inr (P, R, dP', dR', x, y)
        \<and> length x = 2 \<and> length y = 3 \<and> x ! 0 = Pmin \<and> x ! 1 = Pmax
        \<and> dP' ! 2 ! 1 = P ! 2 ! 1 * (geo_ratio Pmin Pmax 2 - 1))"
proof -
  have h: "(2::nat) \<le> 2" "(2::nat) \<le> 3" by simp_all
  from log_grid_C7 [OF h] obtain P R dP' dR' x y where
    g: "log_grid 2 3 = Inr (P, R, dP', dR', x, y)" "length x = 2" "length y = 3"
       "x ! 0 = Pmin" "x ! (2 - 1) = Pmax"
       "\<forall>j<3. \<forall>i<2. P ! j ! i = x ! i \<and> R ! j ! i = y ! j
          \<and> dP' ! j ! i = P ! j ! i * (geo_ratio Pmin Pmax 2 - 1)
          \<and> dR' ! j ! i = R ! j ! i * (geo_ratio Rmin Rmax 3 - 1)"
    by blast
  from g(6) have "dP' ! 2 ! 1 = P ! 2 ! 1 * (geo_ratio Pmin Pmax 2 - 1)" by simp
  then show ?thesis using g(1-5) h by auto
qed

section \<open>The prior\<close>

lemma fparam_cases:
  obtains F0 P_break beta_1 beta_2 P_central chi_1 chi_2 s
  where "(fparam :: fparam) = (F0, P_break, beta_1, beta_2, P_central, chi_1, chi_2, s)"
  by (cases fparam rule: prod_cases7) (metis surj_pair)

lemma log_prior_eq: "log_prior F fparam = (if prior_support F fparam then Fin 0 else NegInf)"
  by (cases fparam rule: fparam_cases)
     (auto simp: log_prior_def prior_support_def prior_box_def)

lemma log_prior_Fin_iff: "log_prior F fparam = Fin 0 \<longleftrightarrow> prior_support F fparam"
  by (simp add: log_prior_eq)

lemma prior_support_box: "prior_support F fparam \<Longrightarrow> prior_box fparam"
  by (cases fparam rule: fparam_cases) (simp add: prior_support_def)

lemma prior_box_shape_domain: "prior_box fparam \<Longrightarrow> shape_domain fparam"
  by (cases fparam rule: fparam_cases) (simp add: prior_box_def shape_domain_def)

lemma log_prior_shape_domain: "log_prior F fparam = Fin 0 \<Longrightarrow> shape_domain fparam"
  by (simp add: log_prior_Fin_iff prior_support_box prior_box_shape_domain)

lemma prior_support_exact_margin:
  "prior_support_exact fparam \<longleftrightarrow> prior_box fparam \<and> joint_margin 0 fparam"
  by (cases fparam rule: fparam_cases) (simp add: prior_support_exact_def joint_margin_def)

text \<open>
  With operations accurate to \<open>eps\<close> each computed side of a joint constraint is within
  \<open>3 * eps\<close> of the exact one at most, so a margin of \<open>4 * eps\<close> decides the test.
\<close>

lemma joint_margin_float:
  assumes acc: "fl_accurate eps F" and box: "prior_box fparam"
    and m: "joint_margin (4 * eps) fparam"
  shows "prior_support F fparam"
proof (cases fparam rule: fparam_cases)
  case (1 F0 P_break beta_1 beta_2 P_central chi_1 chi_2 s)
  have pos: "0 < P_central" "0 < s" using box by (simp_all add: prior_box_def 1)
  have l4: "\<bar>fl_log10 F (2 * Pmin) - log 10 (2 * Pmin)\<bar> \<le> eps"
    and l50: "\<bar>fl_log10 F (0.5 * Pmax) - log 10 (0.5 * Pmax)\<bar> \<le> eps"
    and lc: "\<bar>fl_log10 F P_central - log 10 P_central\<bar> \<le> eps"
    and ls: "\<bar>fl_log10 F s - log 10 s\<bar> \<le> eps"
    using acc pos by (simp_all add: fl_accurate_def Pmin_def Pmax_def)
  have sub: "\<bar>fl_sub F (fl_log10 F P_central) (fl_log10 F s)
      - (fl_log10 F P_central - fl_log10 F s)\<bar> \<le> eps"
    and add: "\<bar>fl_add F (fl_log10 F P_central) (fl_log10 F s)
      - (fl_log10 F P_central + fl_log10 F s)\<bar> \<le> eps"
    using acc by (simp_all add: fl_accurate_def)
  have m1: "log 10 (2 * Pmin) + 4 * eps \<le> log 10 P_central - log 10 s"
    and m2: "log 10 (0.5 * Pmax) - 4 * eps \<ge> log 10 P_central + log 10 s"
    using m by (simp_all add: joint_margin_def 1)
  have "fl_log10 F (2 * Pmin) \<le> fl_sub F (fl_log10 F P_central) (fl_log10 F s)"
    using l4 lc ls sub m1 by linarith
  moreover have "fl_log10 F (0.5 * Pmax) \<ge> fl_add F (fl_log10 F P_central) (fl_log10 F s)"
    using l50 lc ls add m2 by linarith
  ultimately show ?thesis using box by (simp add: prior_support_def 1)
qed


lemma exact_ops_accurate: "0 \<le> eps \<Longrightarrow> fl_accurate eps exact_ops"
  by (simp add: fl_accurate_def exact_ops_def)

lemma log10_five_quarters: "1 / 25 \<le> log 10 (5 / 4 :: real)"
proof -
  have "log 10 (10 :: real) \<le> log 10 ((5 / 4) ^ 25)"
    by (subst log_le_cancel_iff) (simp_all add: power_divide)
  also have "log 10 ((5 / 4 :: real) ^ 25) = 25 * log 10 (5 / 4)"
    by (simp add: log_nat_power)
  finally show ?thesis by simp
qed

lemma interior_box: "prior_box (1, 10, 1, -1, 20, 0.8, 0.2, 2)"
  by (simp add: prior_box_def)

lemma interior_margin: "joint_margin (4 * (1 / 100)) (1, 10, 1, -1, 20, 0.8, 0.2, 2)"
proof -
  have a: "log 10 20 - log 10 2 - log 10 4 = log 10 (5 / 2 :: real)"
    using log_divide_pos [where a = 10 and x = 20 and y = 2]
      log_divide_pos [where a = 10 and x = 10 and y = 4] by simp
  have b: "log 10 50 - (log 10 20 + log 10 2) = log 10 (5 / 4 :: real)"
    using log_mult_pos [where a = 10 and x = 20 and y = 2]
      log_divide_pos [where a = 10 and x = 50 and y = 40] by simp
  have c: "log 10 (5 / 4) \<le> log 10 (5 / 2 :: real)"
    by (subst log_le_cancel_iff) simp_all
  have m1: "log 10 4 + 4 * (1 / 100) \<le> log 10 20 - log 10 (2 :: real)"
    using a c log10_five_quarters by linarith
  have m2: "log 10 20 + log 10 (2 :: real) \<le> log 10 50 - 4 * (1 / 100)"
    using b log10_five_quarters by linarith
  show ?thesis
    using m1 m2 by (simp add: joint_margin_def Pmin_def Pmax_def)
qed

lemma interior_accurate:
  "fl_accurate (1 / 100) F \<Longrightarrow> log_prior F (1, 10, 1, -1, 20, 0.8, 0.2, 2) = Fin 0"
  using joint_margin_float [OF _ interior_box interior_margin] by (simp add: log_prior_eq)

lemma interior_log_prior: "log_prior exact_ops (1, 10, 1, -1, 20, 0.8, 0.2, 2) = Fin 0"
  by (rule interior_accurate) (simp add: exact_ops_accurate)




section \<open>The shape function on the grid\<close>

lemma sx_bounds: "0 < g_sx P fparam \<and> g_sx P fparam < 1"
proof (cases fparam rule: fparam_cases)
  case (1 F0 P_break beta_1 beta_2 P_central chi_1 chi_2 s)
  define t where "t = tanh ((log 10 P - log 10 P_central) / log 10 s)"
  have t: "-1 < t" "t < 1" unfolding t_def by (rule tanh_real_gt_neg1, rule tanh_real_lt_1)
  have "g_sx P fparam = 0.5 + 0.5 * t" by (simp add: 1 g_sx_def t_def)
  then show ?thesis using t by simp
qed

lemma X_bounds:
  assumes "fparam = (F0, P_break, beta_1, beta_2, P_central, chi_1, chi_2, s)" "chi_2 < chi_1"
  shows "chi_2 < g_X P fparam \<and> g_X P fparam < chi_1"
proof -
  define u where "u = g_sx P fparam"
  have u: "0 < u" "u < 1" using sx_bounds [of P fparam] by (simp_all add: u_def)
  have X: "g_X P fparam = chi_1 * (1 - u) + u * chi_2"
    by (simp add: g_X_def assms(1) u_def)
  have "chi_1 * (1 - u) + u * chi_2 - chi_2 = (chi_1 - chi_2) * (1 - u)" by algebra
  moreover have "0 < (chi_1 - chi_2) * (1 - u)" using u assms(2) by simp
  moreover have "chi_1 - (chi_1 * (1 - u) + u * chi_2) = (chi_1 - chi_2) * u" by algebra
  moreover have "0 < (chi_1 - chi_2) * u" using u assms(2) by simp
  ultimately show ?thesis unfolding X by linarith
qed

lemma g2_bounds:
  assumes "0 < g_X P fparam" "g_X P fparam < 1" "Rmin < Rsplit e" "Rsplit e < Rmax"
  shows "0 < g_g2 e P fparam \<and> g_g2 e P fparam < 1"
proof -
  define X where "X = g_X P fparam"
  define u where "u = ln (Rsplit e) - ln Rmin"
  define v where "v = ln Rmax - ln (Rsplit e)"
  have u: "0 < u" using assms(3) by (simp add: u_def Rmin_def)
  have v: "0 < v" using assms(3,4) by (simp add: v_def Rmin_def)
  have X: "0 < X" "X < 1" using assms by (simp_all add: X_def)
  have g2: "g_g2 e P fparam = X * v / (u + X * v - X * u)"
    by (simp add: g_g2_def Let_def X_def u_def v_def)
  have "0 < u * (1 - X)" using u X by simp
  moreover have "0 < X * v" using v X by simp
  moreover have "u + X * v - X * u = u * (1 - X) + X * v" by algebra
  ultimately have "0 < X * v" "X * v < u + X * v - X * u" by simp_all
  then show ?thesis unfolding g2 by simp
qed

lemma occ_SEMN_pos:
  assumes "fparam = (F0, P_break, beta_1, beta_2, P_central, chi_1, chi_2, s)" "0 < P" "0 < P_break"
  shows "0 < g_occ_SEMN P fparam"
  using assms by (simp add: g_occ_SEMN_def)

lemma X_unit:
  assumes "fparam = (F0, P_break, beta_1, beta_2, P_central, chi_1, chi_2, s)"
    and "0 < chi_1" "chi_1 < 1" "0 < chi_2" "chi_2 < 1"
  shows "0 < g_X P fparam \<and> g_X P fparam < 1"
proof -
  define u where "u = g_sx P fparam"
  have u: "0 < u" "u < 1" using sx_bounds [of P fparam] by (simp_all add: u_def)
  have X: "g_X P fparam = chi_1 * (1 - u) + u * chi_2"
    by (simp add: g_X_def assms(1) u_def)
  have p1: "0 < chi_1 * (1 - u)" and p2: "0 < u * chi_2" using u assms by simp_all
  have q1: "chi_1 * (1 - u) < 1 - u" using u assms(3) by simp
  have q2: "u * chi_2 < u" using u assms(5) by simp
  have "0 < chi_1 * (1 - u) + u * chi_2" using p1 p2 by linarith
  moreover have "chi_1 * (1 - u) + u * chi_2 < 1" using q1 q2 by linarith
  ultimately show ?thesis unfolding X by simp
qed

lemma g_pos:
  assumes "shape_domain fparam" "Rmin < Rsplit e" "Rsplit e < Rmax" "0 < P" "0 < R"
  shows "0 < g e P R fparam"
proof (cases fparam rule: fparam_cases)
  case (1 F0 P_break beta_1 beta_2 P_central chi_1 chi_2 s)
  from assms(1) have b: "0 < P_break" "0 < chi_1" "chi_1 < 1" "0 < chi_2" "chi_2 < 1"
    by (auto simp: shape_domain_def 1)
  have occ: "0 < g_occ_SEMN P fparam" using occ_SEMN_pos [OF 1 assms(4) b(1)] .
  have X: "0 < g_X P fparam" "g_X P fparam < 1"
    using X_unit [OF 1 b(2-5), of P] by simp_all
  have g2: "0 < g_g2 e P fparam" "g_g2 e P fparam < 1"
    using g2_bounds [OF X assms(2,3)] by simp_all
  then have "0 < g_split e P R fparam" by (simp add: g_split_def)
  then show ?thesis using occ assms(5) by (simp add: g_def)
qed

lemma shape_g_arr: "has_shape 100 100 (arr_map2 f intP intR)"
  by (simp add: has_shape_arr_map2 shape_intP shape_intR)

lemma np_sum_grid:
  "np_sum (arr_mul (arr_mul (arr_map2 f intP intR) dP) dR) = grid_sum f"
proof -
  have sh: "has_shape 100 100 (arr_mul (arr_mul (arr_map2 f intP intR) dP) dR)"
    by (intro has_shape_arr_mul shape_g_arr shape_dP shape_dR)
  have "arr_mul (arr_mul (arr_map2 f intP intR) dP) dR ! j ! i
        = f (intP ! j ! i) (intR ! j ! i) * dP ! j ! i * dR ! j ! i"
    if "j < 100" "i < 100" for j i
    using that
    by (simp add: nth_arr_mul [OF has_shape_arr_mul [OF shape_g_arr shape_dP] shape_dR]
        nth_arr_mul [OF shape_g_arr shape_dP] nth_arr_map2 [OF shape_intP shape_intR])
  then show ?thesis
    by (simp add: np_sum_index [OF sh] grid_sum_def)
qed

lemma shape_completeness: "has_shape 100 100 (OneRunCompletenessGrid e)"
  by (simp add: has_shape_def OneRunCompletenessGrid_def length_grid_x length_grid_y)

lemma nth_completeness:
  "j < 100 \<Longrightarrow> i < 100 \<Longrightarrow>
   OneRunCompletenessGrid e ! j ! i = SummedEtaInterp e (intP ! j ! i) (intR ! j ! i)"
  by (simp add: OneRunCompletenessGrid_def length_grid_x length_grid_y nth_intP nth_intR)

lemma np_sum_grid_completeness:
  "np_sum (arr_mul (arr_mul (arr_mul (OneRunCompletenessGrid e) (arr_map2 f intP intR)) dP) dR)
   = grid_sum (\<lambda>P R. SummedEtaInterp e P R * f P R)"
proof -
  let ?C = "arr_mul (OneRunCompletenessGrid e) (arr_map2 f intP intR)"
  have shC: "has_shape 100 100 ?C"
    by (intro has_shape_arr_mul shape_g_arr shape_completeness)
  have sh: "has_shape 100 100 (arr_mul (arr_mul ?C dP) dR)"
    by (intro has_shape_arr_mul shC shape_dP shape_dR)
  have "arr_mul (arr_mul ?C dP) dR ! j ! i
        = SummedEtaInterp e (intP ! j ! i) (intR ! j ! i) * f (intP ! j ! i) (intR ! j ! i)
          * dP ! j ! i * dR ! j ! i"
    if "j < 100" "i < 100" for j i
    using that
    by (simp add: nth_arr_mul [OF has_shape_arr_mul [OF shC shape_dP] shape_dR]
        nth_arr_mul [OF shC shape_dP] nth_arr_mul [OF shape_completeness shape_g_arr]
        nth_arr_map2 [OF shape_intP shape_intR] nth_completeness)
  then show ?thesis
    by (simp add: np_sum_index [OF sh] grid_sum_def)
qed

lemma function_Cn_spec: "function_Cn e fparam = Cn_spec e fparam"
  by (simp add: function_Cn_def Cn_spec_def g_arr_def np_sum_grid)

lemma function_Nexp_spec: "function_Nexp e fparam = Nexp_spec e fparam"
  by (simp add: function_Nexp_def Nexp_spec_def Let_def g_arr_def np_sum_grid_completeness
      function_Cn_spec)

lemma grid_sum_scale: "grid_sum (\<lambda>P R. c * f P R) = c * grid_sum f"
  by (simp add: grid_sum_def sum_distrib_left mult.assoc)

lemma grid_sum_pos:
  assumes "\<And>j i. j < 100 \<Longrightarrow> i < 100 \<Longrightarrow> 0 < f (intP ! j ! i) (intR ! j ! i)"
  shows "0 < grid_sum f"
proof -
  have "(0::nat) \<in> {..<100}" by simp
  then have ne: "{..<100::nat} \<noteq> {}" by blast
  have "0 < (\<Sum>i<100. f (intP ! j ! i) (intR ! j ! i) * dP ! j ! i * dR ! j ! i)"
    if "j < 100" for j
    using that ne by (intro sum_pos mult_pos_pos assms dP_pos dR_pos) simp_all
  then have rows: "\<And>j. j \<in> {..<100} \<Longrightarrow>
      0 < (\<Sum>i<100. f (intP ! j ! i) (intR ! j ! i) * dP ! j ! i * dR ! j ! i)"
    by simp
  show ?thesis
    unfolding grid_sum_def by (rule sum_pos [OF _ ne rows]) simp_all
qed

lemma grid_point_pos: "j < 100 \<Longrightarrow> i < 100 \<Longrightarrow> 0 < intP ! j ! i \<and> 0 < intR ! j ! i"
  using grid_x_bounds [of i] grid_y_bounds [of j] by (simp add: nth_intP nth_intR)

lemma grid_sum_g_pos:
  assumes "shape_domain fparam" "Rmin < Rsplit e" "Rsplit e < Rmax"
  shows "0 < grid_sum (\<lambda>P R. g e P R fparam)"
  by (rule grid_sum_pos) (simp add: g_pos [OF assms] grid_point_pos)

text \<open>The radius split of a mass bin, as \<open>ScaledRadius\<close> computes it from the mean mass.\<close>

lemma ScaledRadius_default: "ScaledRadius 2 1 False = 2"
  by (simp add: ScaledRadius_def)

lemma fourth_root_sixteenth: "(1 / 16 :: real) powr (1 / 4) = 1 / 2"
proof -
  have e: "(1 / 2) powr 4 = (1 / 16 :: real)" by (simp add: power_divide)
  have "(1 / 16 :: real) powr (1 / 4) = ((1 / 2) powr 4) powr (1 / 4)" by (simp only: e)
  also have "\<dots> = (1 / 2) powr (4 * (1 / 4))" by (rule powr_powr)
  finally show ?thesis by simp
qed

lemma fourth_root_upper: "(2401 / 256 :: real) powr (1 / 4) = 7 / 4"
proof -
  have e: "(7 / 4) powr 4 = (2401 / 256 :: real)" by (simp add: power_divide)
  have "(2401 / 256 :: real) powr (1 / 4) = ((7 / 4) powr 4) powr (1 / 4)" by (simp only: e)
  also have "\<dots> = (7 / 4) powr (4 * (1 / 4))" by (rule powr_powr)
  finally show ?thesis by simp
qed

lemma ScaledRadius_in_range:
  assumes "1 / 16 < M" "M < 2401 / 256"
  shows "Rmin < ScaledRadius 2 M False \<and> ScaledRadius 2 M False < Rmax"
proof -
  have "(1 / 16 :: real) powr (1 / 4) < M powr (1 / 4)"
    using assms(1) by (intro powr_less_mono2) simp_all
  moreover have "M powr (1 / 4) < (2401 / 256 :: real) powr (1 / 4)"
    using assms by (intro powr_less_mono2) simp_all
  ultimately show ?thesis
    by (simp add: ScaledRadius_def Rmin_def Rmax_def fourth_root_sixteenth fourth_root_upper)
qed

lemma list_all_array:
  assumes "has_shape ny nx A" "\<And>j i. j < ny \<Longrightarrow> i < nx \<Longrightarrow> Q (A ! j ! i)"
  shows "list_all (list_all Q) A"
  using assms by (auto simp: has_shape_def list_all_length)

text \<open>
  Claim C5. For a parameter vector the prior accepts and a radius split strictly between
  \<open>Rmin\<close> and \<open>Rmax\<close>, every entry of \<open>g\<close> on the integration grid is
  non-negative: at each cell the broken power law is positive, the mixing fraction
  \<open>X\<close> lies strictly between \<open>chi_2\<close> and \<open>chi_1\<close>, and the split fraction
  \<open>g2\<close> lies strictly between 0 and 1.
\<close>

theorem g_nonneg_C5:
  assumes "log_prior F fparam = Fin 0" "Rmin < Rsplit e" "Rsplit e < Rmax"
  shows "list_all (list_all (\<lambda>v. 0 \<le> v)) (g_arr e intP intR fparam)
    \<and> (\<forall>j<100. \<forall>i<100.
          0 \<le> g e (intP ! j ! i) (intR ! j ! i) fparam
        \<and> 0 < g_occ_SEMN (intP ! j ! i) fparam
        \<and> (case fparam of (F0, P_break, beta_1, beta_2, P_central, chi_1, chi_2, s) \<Rightarrow>
             chi_2 < g_X (intP ! j ! i) fparam \<and> g_X (intP ! j ! i) fparam < chi_1)
        \<and> 0 < g_g2 e (intP ! j ! i) fparam \<and> g_g2 e (intP ! j ! i) fparam < 1
        \<and> 0 \<le> g_split e (intP ! j ! i) (intR ! j ! i) fparam)"
proof (cases fparam rule: fparam_cases)
  case (1 F0 P_break beta_1 beta_2 P_central chi_1 chi_2 s)
  have box: "prior_box fparam"
    using assms(1) by (simp add: log_prior_Fin_iff prior_support_box)
  have ps: "shape_domain fparam" using box by (rule prior_box_shape_domain)
  from box have b: "0 < P_break" "chi_2 < chi_1" "0 < chi_2" "chi_1 < 1"
    by (auto simp: prior_box_def 1)
  have cell: "0 \<le> g e (intP ! j ! i) (intR ! j ! i) fparam
        \<and> 0 < g_occ_SEMN (intP ! j ! i) fparam
        \<and> (chi_2 < g_X (intP ! j ! i) fparam \<and> g_X (intP ! j ! i) fparam < chi_1)
        \<and> 0 < g_g2 e (intP ! j ! i) fparam \<and> g_g2 e (intP ! j ! i) fparam < 1
        \<and> 0 \<le> g_split e (intP ! j ! i) (intR ! j ! i) fparam"
    if "j < 100" "i < 100" for j i
  proof -
    have pt: "0 < intP ! j ! i" "0 < intR ! j ! i" using grid_point_pos [OF that] by simp_all
    have X: "chi_2 < g_X (intP ! j ! i) fparam" "g_X (intP ! j ! i) fparam < chi_1"
      using X_bounds [OF 1 b(2), of "intP ! j ! i"] by simp_all
    then have X01: "0 < g_X (intP ! j ! i) fparam" "g_X (intP ! j ! i) fparam < 1"
      using b(3,4) by simp_all
    have g2: "0 < g_g2 e (intP ! j ! i) fparam" "g_g2 e (intP ! j ! i) fparam < 1"
      using g2_bounds [OF X01 assms(2,3)] by simp_all
    then have sp: "0 \<le> g_split e (intP ! j ! i) (intR ! j ! i) fparam"
      by (simp add: g_split_def)
    have "0 < g e (intP ! j ! i) (intR ! j ! i) fparam"
      using g_pos [OF ps assms(2,3) pt] .
    then show ?thesis
      using occ_SEMN_pos [OF 1 pt(1) b(1)] X g2 sp by simp
  qed
  have "list_all (list_all (\<lambda>v. 0 \<le> v)) (g_arr e intP intR fparam)"
    unfolding g_arr_def
    by (rule list_all_array [OF shape_g_arr])
       (simp add: nth_arr_map2 [OF shape_intP shape_intR] cell)
  then show ?thesis using cell by (simp add: 1)
qed

theorem g_nonneg_C5_witness:
  "log_prior exact_ops (1, 10, 1, -1, 20, 0.8, 0.2, 2) = Fin 0
   \<and> Rmin < Rsplit \<lparr>Rsplit = 2, SummedEtaInterp = \<lambda>P R. 1\<rparr>
   \<and> Rsplit \<lparr>Rsplit = 2, SummedEtaInterp = \<lambda>P R. 1\<rparr> < Rmax
   \<and> list_all (list_all (\<lambda>v. 0 \<le> v))
        (g_arr \<lparr>Rsplit = 2, SummedEtaInterp = \<lambda>P R. 1\<rparr> intP intR (1, 10, 1, -1, 20, 0.8, 0.2, 2))
   \<and> 0 \<le> g \<lparr>Rsplit = 2, SummedEtaInterp = \<lambda>P R. 1\<rparr> (intP ! 0 ! 0) (intR ! 0 ! 0)
            (1, 10, 1, -1, 20, 0.8, 0.2, 2)"
proof -
  have p: "log_prior exact_ops (1, 10, 1, -1, 20, 0.8, 0.2, 2) = Fin 0"
    by (rule interior_log_prior)
  have r: "Rmin < Rsplit \<lparr>Rsplit = 2, SummedEtaInterp = \<lambda>P R. 1\<rparr>"
     "Rsplit \<lparr>Rsplit = 2, SummedEtaInterp = \<lambda>P R. 1\<rparr> < Rmax"
    by (simp_all add: Rmin_def Rmax_def)
  show ?thesis
    using g_nonneg_C5 [OF p r] p r by simp
qed

section \<open>Normalisation\<close>

lemma arr_scale_map2: "arr_scale c (arr_map2 f A B) = arr_map2 (\<lambda>p r. c * f p r) A B"
  by (simp add: arr_scale_def arr_map2_def case_prod_unfold)

lemma df_arr_scale:
  "df_arr e P R fparam = arr_map2 (\<lambda>p r. (fst fparam * function_Cn e fparam) * g e p r fparam) P R"
  by (simp add: df_arr_def df_def Let_def)

text \<open>
  Claim C1. Whenever the grid sum of \<open>g * dP * dR\<close> is positive, the grid sum of
  \<open>Cn * g * dP * dR\<close> is exactly 1 and the grid sum of \<open>df * dP * dR\<close> is exactly
  \<open>F0\<close>. The grid sum is positive for every parameter vector the prior accepts, the
  radius split lying strictly between \<open>Rmin\<close> and \<open>Rmax\<close>; it does so for the
  module's \<open>Rsplit = ScaledRadius()\<close> and for every mass bin whose mean mass is between
  1/16 and 2401/256 solar masses.
\<close>

theorem normalisation_C1:
  "(0 < np_sum (arr_mul (arr_mul (g_arr e intP intR fparam) dP) dR) \<longrightarrow>
      np_sum (arr_mul (arr_mul (arr_scale (function_Cn e fparam) (g_arr e intP intR fparam)) dP) dR) = 1
      \<and> np_sum (arr_mul (arr_mul (df_arr e intP intR fparam) dP) dR) = fst fparam)
   \<and> (log_prior F fparam = Fin 0 \<and> Rmin < Rsplit e \<and> Rsplit e < Rmax \<longrightarrow>
      0 < np_sum (arr_mul (arr_mul (g_arr e intP intR fparam) dP) dR))
   \<and> (log_prior F fparam = Fin 0 \<and> 1 / 16 < M \<and> M < 2401 / 256
        \<and> Rsplit e = ScaledRadius 2 M False \<longrightarrow>
      0 < np_sum (arr_mul (arr_mul (g_arr e intP intR fparam) dP) dR))"
proof (intro conjI impI)
  let ?S = "grid_sum (\<lambda>P R. g e P R fparam)"
  have S: "np_sum (arr_mul (arr_mul (g_arr e intP intR fparam) dP) dR) = ?S"
    by (simp add: g_arr_def np_sum_grid)
  have Cn: "function_Cn e fparam = 1 / ?S"
    by (simp add: function_Cn_spec Cn_spec_def)
  have scaled: "np_sum (arr_mul (arr_mul (arr_map2 (\<lambda>p r. c * g e p r fparam) intP intR) dP) dR)
      = c * ?S" for c
    by (simp only: np_sum_grid grid_sum_scale)
  {
    assume "0 < np_sum (arr_mul (arr_mul (g_arr e intP intR fparam) dP) dR)"
    then have pos: "?S \<noteq> 0" using S by simp
    have "np_sum (arr_mul (arr_mul (arr_scale (function_Cn e fparam)
            (g_arr e intP intR fparam)) dP) dR) = function_Cn e fparam * ?S"
      by (simp only: g_arr_def arr_scale_map2 scaled)
    then show "np_sum (arr_mul (arr_mul (arr_scale (function_Cn e fparam)
            (g_arr e intP intR fparam)) dP) dR) = 1"
      using pos by (simp add: Cn)
    have "np_sum (arr_mul (arr_mul (df_arr e intP intR fparam) dP) dR)
          = (fst fparam * function_Cn e fparam) * ?S"
      by (simp only: df_arr_scale scaled)
    then show "np_sum (arr_mul (arr_mul (df_arr e intP intR fparam) dP) dR) = fst fparam"
      using pos by (simp add: Cn)
  }
  {
    assume "log_prior F fparam = Fin 0 \<and> Rmin < Rsplit e \<and> Rsplit e < Rmax"
    then show "0 < np_sum (arr_mul (arr_mul (g_arr e intP intR fparam) dP) dR)"
      using grid_sum_g_pos [of fparam e] log_prior_shape_domain [of F fparam] by (simp add: S)
  }
  {
    assume "log_prior F fparam = Fin 0 \<and> 1 / 16 < M \<and> M < 2401 / 256
        \<and> Rsplit e = ScaledRadius 2 M False"
    then show "0 < np_sum (arr_mul (arr_mul (g_arr e intP intR fparam) dP) dR)"
      using grid_sum_g_pos [of fparam e] ScaledRadius_in_range [of M]
        log_prior_shape_domain [of F fparam]
      by (simp add: S)
  }
qed

theorem normalisation_C1_witness:
  "log_prior exact_ops (1, 10, 1, -1, 20, 0.8, 0.2, 2) = Fin 0
   \<and> Rsplit \<lparr>Rsplit = 2, SummedEtaInterp = \<lambda>P R. 1\<rparr> = ScaledRadius 2 1 False
   \<and> Rmin < Rsplit \<lparr>Rsplit = 2, SummedEtaInterp = \<lambda>P R. 1\<rparr>
   \<and> Rsplit \<lparr>Rsplit = 2, SummedEtaInterp = \<lambda>P R. 1\<rparr> < Rmax
   \<and> 0 < np_sum (arr_mul (arr_mul (g_arr \<lparr>Rsplit = 2, SummedEtaInterp = \<lambda>P R. 1\<rparr>
         intP intR (1, 10, 1, -1, 20, 0.8, 0.2, 2)) dP) dR)
   \<and> np_sum (arr_mul (arr_mul (arr_scale
         (function_Cn \<lparr>Rsplit = 2, SummedEtaInterp = \<lambda>P R. 1\<rparr> (1, 10, 1, -1, 20, 0.8, 0.2, 2))
         (g_arr \<lparr>Rsplit = 2, SummedEtaInterp = \<lambda>P R. 1\<rparr>
            intP intR (1, 10, 1, -1, 20, 0.8, 0.2, 2))) dP) dR) = 1
   \<and> np_sum (arr_mul (arr_mul (df_arr \<lparr>Rsplit = 2, SummedEtaInterp = \<lambda>P R. 1\<rparr>
         intP intR (1, 10, 1, -1, 20, 0.8, 0.2, 2)) dP) dR) = 1"
proof -
  have p: "log_prior exact_ops (1, 10, 1, -1, 20, 0.8, 0.2, 2) = Fin 0"
    by (rule interior_log_prior)
  have r: "Rmin < Rsplit \<lparr>Rsplit = 2, SummedEtaInterp = \<lambda>P R. 1\<rparr>"
     "Rsplit \<lparr>Rsplit = 2, SummedEtaInterp = \<lambda>P R. 1\<rparr> < Rmax"
    by (simp_all add: Rmin_def Rmax_def)
  show ?thesis
    using normalisation_C1 [of "\<lparr>Rsplit = 2, SummedEtaInterp = \<lambda>P R. 1\<rparr>"
        "(1, 10, 1, -1, 20, 0.8, 0.2, 2)" exact_ops 1] p r
    by (simp add: ScaledRadius_default)
qed

section \<open>Likelihood and posterior\<close>

lemma g_term_sum:
  assumes "length P = length R"
  shows "sum_list (map ln (map2 f P R)) = (\<Sum>i<length P. ln (f (P ! i) (R ! i)))"
  using assms by (simp add: sum_list_sum_nth atLeast0LessThan)

lemma lnL_equal_lengths:
  assumes "length P = length R"
  shows "lnL e fparam P R =
     Inr (- function_Nexp e fparam + real (length P) * ln (fst fparam)
          + real (length P) * ln (function_Cn e fparam)
          + sum_list (map ln (map2 (\<lambda>p r. g e p r fparam) P R)))"
  using assms by (simp add: lnL_def function_Npl_def Let_def)

lemma lnL_unequal_lengths:
  "length P \<noteq> length R \<Longrightarrow> lnL e fparam P R = Inl AssertionError"
  by (simp add: lnL_def function_Npl_def)

text \<open>
  Claim C4. For arrays \<open>P\<close> and \<open>R\<close> of one length, \<open>lnL\<close> returns
  \<open>- N_exp + N_pl * ln F0 + N_pl * ln Cn + (\<Sum>i. ln (g (P i) (R i)))\<close>, with \<open>N_pl\<close>
  the common length and \<open>N_exp\<close> and \<open>Cn\<close> the sums of the specification over the
  integration grid and the completeness grid of the bin; \<open>function_Nexp\<close> and
  \<open>function_Cn\<close> compute these sums.
\<close>

theorem lnL_C4:
  assumes "length P = length R"
  shows "lnL e fparam P R = Inr (lnL_spec e fparam P R)
    \<and> function_Nexp e fparam = Nexp_spec e fparam
    \<and> function_Cn e fparam = Cn_spec e fparam"
proof -
  have "lnL e fparam P R = Inr (lnL_spec e fparam P R)"
    by (simp only: lnL_equal_lengths [OF assms] lnL_spec_def function_Nexp_spec
        function_Cn_spec g_term_sum [OF assms])
  then show ?thesis
    by (simp only: function_Nexp_spec function_Cn_spec simp_thms)
qed

theorem lnL_C4_witness:
  "length [3, 50 :: real] = length [3 / 2, 3 :: real]
   \<and> lnL \<lparr>Rsplit = 2, SummedEtaInterp = \<lambda>P R. 1\<rparr> (1, 10, 1, -1, 20, 0.8, 0.2, 2) [3, 50] [3 / 2, 3]
       = Inr (lnL_spec \<lparr>Rsplit = 2, SummedEtaInterp = \<lambda>P R. 1\<rparr> (1, 10, 1, -1, 20, 0.8, 0.2, 2)
                [3, 50] [3 / 2, 3])"
proof -
  have h: "length [3, 50 :: real] = length [3 / 2, 3 :: real]" by simp
  show ?thesis
    using lnL_C4 [OF h, of "\<lparr>Rsplit = 2, SummedEtaInterp = \<lambda>P R. 1\<rparr>"
        "(1, 10, 1, -1, 20, 0.8, 0.2, 2)"] h
    by blast
qed

text \<open>
  Claim C10. \<open>lnL\<close> raises AssertionError, through \<open>function_Npl\<close>, whenever the two
  observed arrays differ in length. For arrays of one length the assertion holds,
  \<open>function_Npl\<close> returns that length and \<open>lnL\<close> returns a value; for the empty
  sample the value is \<open>- N_exp\<close>, the data terms contributing 0.
\<close>

theorem lnL_assert_C10:
  "(length P \<noteq> length R \<longrightarrow>
      function_Npl P R = Inl AssertionError \<and> lnL e fparam P R = Inl AssertionError)
   \<and> (length P = length R \<longrightarrow>
      function_Npl P R = Inr (length P) \<and> (\<exists>v. lnL e fparam P R = Inr v))
   \<and> function_Npl [] [] = Inr 0
   \<and> sum_list (map ln (map2 (\<lambda>p r. g e p r fparam) [] [])) = 0
   \<and> lnL e fparam [] [] = Inr (- function_Nexp e fparam)"
  by (simp add: lnL_unequal_lengths lnL_equal_lengths function_Npl_def)

theorem lnL_assert_C10_witness:
  "length [3 :: real] \<noteq> length ([] :: real list)
   \<and> function_Npl [3] [] = Inl AssertionError
   \<and> lnL \<lparr>Rsplit = 2, SummedEtaInterp = \<lambda>P R. 1\<rparr> (1, 10, 1, -1, 20, 0.8, 0.2, 2) [3] []
       = Inl AssertionError
   \<and> length [3, 50 :: real] = length [3 / 2, 3 :: real]
   \<and> function_Npl [3, 50] [3 / 2, 3] = Inr 2
   \<and> (\<exists>v. lnL \<lparr>Rsplit = 2, SummedEtaInterp = \<lambda>P R. 1\<rparr> (1, 10, 1, -1, 20, 0.8, 0.2, 2)
              [3, 50] [3 / 2, 3] = Inr v)"
  using lnL_assert_C10 [of "[3]" "[]" "\<lparr>Rsplit = 2, SummedEtaInterp = \<lambda>P R. 1\<rparr>"
      "(1, 10, 1, -1, 20, 0.8, 0.2, 2)"]
    lnL_assert_C10 [of "[3, 50]" "[3 / 2, 3]" "\<lparr>Rsplit = 2, SummedEtaInterp = \<lambda>P R. 1\<rparr>"
      "(1, 10, 1, -1, 20, 0.8, 0.2, 2)"]
  by simp

text \<open>
  Claim C3. When \<open>log_prior\<close> is not finite, \<open>log_posterior\<close> returns negative
  infinity whatever the sample is, also where \<open>lnL\<close> would raise: the likelihood is
  not evaluated. Otherwise it evaluates \<open>lnL\<close> and returns the prior plus the
  likelihood (an exception of \<open>lnL\<close> propagates).
\<close>

theorem log_posterior_C3:
  "(\<not> isfinite (log_prior F fparam) \<longrightarrow> log_posterior F e fparam P R = Inr NegInf)
   \<and> (isfinite (log_prior F fparam) \<longrightarrow>
        log_posterior F e fparam P R =
          (case lnL e fparam P R of
             Inl err \<Rightarrow> Inl err
           | Inr l \<Rightarrow> Inr (np_add (log_prior F fparam) (Fin l))))
   \<and> (\<forall>lp l. log_prior F fparam = Fin lp \<and> lnL e fparam P R = Inr l \<longrightarrow>
        log_posterior F e fparam P R = Inr (Fin (lp + l)))"
  by (auto simp: log_posterior_def Let_def)

theorem log_posterior_C3_witness:
  "\<not> isfinite (log_prior exact_ops (10, 10, 1, -1, 20, 0.8, 0.2, 2))
   \<and> lnL \<lparr>Rsplit = 2, SummedEtaInterp = \<lambda>P R. 1\<rparr> (10, 10, 1, -1, 20, 0.8, 0.2, 2) [3] []
       = Inl AssertionError
   \<and> log_posterior exact_ops \<lparr>Rsplit = 2, SummedEtaInterp = \<lambda>P R. 1\<rparr>
        (10, 10, 1, -1, 20, 0.8, 0.2, 2) [3] []
       = Inr NegInf
   \<and> isfinite (log_prior exact_ops (1, 10, 1, -1, 20, 0.8, 0.2, 2))
   \<and> log_posterior exact_ops \<lparr>Rsplit = 2, SummedEtaInterp = \<lambda>P R. 1\<rparr>
        (1, 10, 1, -1, 20, 0.8, 0.2, 2) [3] [3 / 2]
       = (case lnL \<lparr>Rsplit = 2, SummedEtaInterp = \<lambda>P R. 1\<rparr> (1, 10, 1, -1, 20, 0.8, 0.2, 2) [3] [3 / 2] of
            Inl err \<Rightarrow> Inl err
          | Inr l \<Rightarrow> Inr (np_add (log_prior exact_ops (1, 10, 1, -1, 20, 0.8, 0.2, 2)) (Fin l)))"
proof -
  have bad: "log_prior exact_ops (10, 10, 1, -1, 20, 0.8, 0.2, 2) = NegInf"
    by (simp add: log_prior_eq prior_support_def prior_box_def)
  have good: "log_prior exact_ops (1, 10, 1, -1, 20, 0.8, 0.2, 2) = Fin 0"
    by (rule interior_log_prior)
  show ?thesis
    using log_posterior_C3 [of exact_ops "(10, 10, 1, -1, 20, 0.8, 0.2, 2)"
        "\<lparr>Rsplit = 2, SummedEtaInterp = \<lambda>P R. 1\<rparr>" "[3]" "[]"]
      log_posterior_C3 [of exact_ops "(1, 10, 1, -1, 20, 0.8, 0.2, 2)"
        "\<lparr>Rsplit = 2, SummedEtaInterp = \<lambda>P R. 1\<rparr>" "[3]" "[3 / 2]"]
      bad good
    by (simp add: lnL_unequal_lengths)
qed

section \<open>Expected detections as a function of F0\<close>

lemma g_indep_F0: "g e P R (F0, rest) = g e P R (F0', rest)"
  by (cases rest rule: prod_cases7)
     (simp add: g_def g_split_def g_g2_def g_X_def g_sx_def g_occ_SEMN_def)

lemma grid_sum_cong:
  assumes "\<And>j i. j < 100 \<Longrightarrow> i < 100 \<Longrightarrow> f (intP ! j ! i) (intR ! j ! i) = h (intP ! j ! i) (intR ! j ! i)"
  shows "grid_sum f = grid_sum h"
  by (simp add: grid_sum_def assms)

lemma grid_sum_nonneg:
  assumes "\<And>j i. j < 100 \<Longrightarrow> i < 100 \<Longrightarrow> 0 \<le> f (intP ! j ! i) (intR ! j ! i)"
  shows "0 \<le> grid_sum f"
  unfolding grid_sum_def
proof (intro sum_nonneg mult_nonneg_nonneg)
  fix j i :: nat assume "j \<in> {..<100}" "i \<in> {..<100}"
  then have ji: "j < 100" "i < 100" by simp_all
  show "0 \<le> f (intP ! j ! i) (intR ! j ! i)" using assms ji by simp
  show "0 \<le> dP ! j ! i" using dP_pos [OF ji] by simp
  show "0 \<le> dR ! j ! i" using dR_pos [OF ji] by simp
qed

lemma function_Nexp_linear:
  "function_Nexp e (F0, rest) =
     F0 * (grid_sum (\<lambda>P R. SummedEtaInterp e P R * g e P R (1, rest))
           / grid_sum (\<lambda>P R. g e P R (1, rest)))"
proof -
  have g1: "g e P R (F0, rest) = g e P R (1, rest)" for P R
    by (rule g_indep_F0)
  show ?thesis
    by (simp add: function_Nexp_spec Nexp_spec_def Cn_spec_def g1)
qed

lemma completeness_nonneg:
  assumes "list_all (list_all (\<lambda>v. 0 \<le> v)) (OneRunCompletenessGrid e)" "j < 100" "i < 100"
  shows "0 \<le> SummedEtaInterp e (intP ! j ! i) (intR ! j ! i)"
proof -
  have "0 \<le> OneRunCompletenessGrid e ! j ! i"
    using assms shape_completeness [of e] by (simp add: list_all_length has_shape_def)
  then show ?thesis using assms(2,3) by (simp add: nth_completeness)
qed

text \<open>
  Claim C6. For two parameter vectors that differ in \<open>F0\<close> only, with a positive
  break period and mixture ratios strictly between 0 and 1 as in the data model, a
  radius split strictly between \<open>Rmin\<close> and \<open>Rmax\<close> and a completeness grid without
  negative entries, the larger \<open>F0\<close> gives an \<open>N_exp\<close> at least as large: \<open>g\<close> and
  \<open>Cn\<close> do not depend on \<open>F0\<close>, and \<open>N_exp\<close> is \<open>F0\<close> times a coefficient that is
  the same for every \<open>F0\<close> and is not negative.
\<close>

theorem Nexp_monotone_C6:
  assumes "0 < P_break" "0 < chi_1" "chi_1 < 1" "0 < chi_2" "chi_2 < 1"
    and "Rmin < Rsplit e" "Rsplit e < Rmax"
    and "list_all (list_all (\<lambda>v. 0 \<le> v)) (OneRunCompletenessGrid e)"
    and "F0 \<le> F0'"
  shows "function_Nexp e (F0, P_break, beta_1, beta_2, P_central, chi_1, chi_2, s)
      \<le> function_Nexp e (F0', P_break, beta_1, beta_2, P_central, chi_1, chi_2, s)
    \<and> g e P R (F0, P_break, beta_1, beta_2, P_central, chi_1, chi_2, s)
      = g e P R (F0', P_break, beta_1, beta_2, P_central, chi_1, chi_2, s)
    \<and> function_Cn e (F0, P_break, beta_1, beta_2, P_central, chi_1, chi_2, s)
      = function_Cn e (F0', P_break, beta_1, beta_2, P_central, chi_1, chi_2, s)
    \<and> (\<exists>c\<ge>0. \<forall>F. function_Nexp e (F, P_break, beta_1, beta_2, P_central, chi_1, chi_2, s)
          = F * c)"
proof -
  let ?rest = "(P_break, beta_1, beta_2, P_central, chi_1, chi_2, s)"
  let ?c = "grid_sum (\<lambda>P R. SummedEtaInterp e P R * g e P R (1, ?rest))
           / grid_sum (\<lambda>P R. g e P R (1, ?rest))"
  have sd: "shape_domain (1, ?rest)"
    using assms(1-5) by (simp add: shape_domain_def)
  have S: "0 < grid_sum (\<lambda>P R. g e P R (1, ?rest))"
    using grid_sum_g_pos [OF sd assms(6,7)] .
  have I: "0 \<le> grid_sum (\<lambda>P R. SummedEtaInterp e P R * g e P R (1, ?rest))"
  proof (rule grid_sum_nonneg)
    fix j i :: nat assume ji: "j < 100" "i < 100"
    have "0 < g e (intP ! j ! i) (intR ! j ! i) (1, ?rest)"
      using g_pos [OF sd assms(6,7)] grid_point_pos [OF ji] by simp
    then show "0 \<le> SummedEtaInterp e (intP ! j ! i) (intR ! j ! i)
        * g e (intP ! j ! i) (intR ! j ! i) (1, ?rest)"
      using completeness_nonneg [OF assms(8) ji] by simp
  qed
  have c: "0 \<le> ?c" using S I by simp
  have lin: "function_Nexp e (F, ?rest) = F * ?c" for F
    by (rule function_Nexp_linear)
  have mono: "function_Nexp e (F0, ?rest) \<le> function_Nexp e (F0', ?rest)"
    unfolding lin using assms(9) c by (rule mult_right_mono)
  have gi: "g e P R (F0, ?rest) = g e P R (F0', ?rest)" by (rule g_indep_F0)
  have "g e p r (F0, ?rest) = g e p r (F0', ?rest)" for p r by (rule g_indep_F0)
  then have Cn: "function_Cn e (F0, ?rest) = function_Cn e (F0', ?rest)"
    by (simp add: function_Cn_def g_arr_def)
  have "\<exists>c\<ge>0. \<forall>F. function_Nexp e (F, ?rest) = F * c"
    using c lin by blast
  then show ?thesis using mono gi Cn by simp
qed

theorem Nexp_monotone_C6_witness:
  "(0 :: real) < 10 \<and> (0 :: real) < 0.8 \<and> (0.8 :: real) < 1 \<and> (0 :: real) < 0.2 \<and> (0.2 :: real) < 1
   \<and> Rmin < Rsplit \<lparr>Rsplit = 2, SummedEtaInterp = \<lambda>P R. 1\<rparr>
   \<and> Rsplit \<lparr>Rsplit = 2, SummedEtaInterp = \<lambda>P R. 1\<rparr> < Rmax
   \<and> list_all (list_all (\<lambda>v. 0 \<le> v)) (OneRunCompletenessGrid \<lparr>Rsplit = 2, SummedEtaInterp = \<lambda>P R. 1\<rparr>)
   \<and> (1 :: real) \<le> 2
   \<and> function_Nexp \<lparr>Rsplit = 2, SummedEtaInterp = \<lambda>P R. 1\<rparr> (1, 10, 1, -1, 20, 0.8, 0.2, 2)
     \<le> function_Nexp \<lparr>Rsplit = 2, SummedEtaInterp = \<lambda>P R. 1\<rparr> (2, 10, 1, -1, 20, 0.8, 0.2, 2)"
proof -
  let ?e = "\<lparr>Rsplit = 2, SummedEtaInterp = \<lambda>P R. (1::real)\<rparr>"
  have r: "Rmin < Rsplit ?e" "Rsplit ?e < Rmax" by (simp_all add: Rmin_def Rmax_def)
  have c: "list_all (list_all (\<lambda>v. 0 \<le> v)) (OneRunCompletenessGrid ?e)"
    by (rule list_all_array [OF shape_completeness]) (simp add: nth_completeness)
  have "function_Nexp ?e (1, 10, 1, -1, 20, 0.8, 0.2, 2)
      \<le> function_Nexp ?e (2, 10, 1, -1, 20, 0.8, 0.2, 2)"
    using Nexp_monotone_C6 [of 10 "0.8" "0.2" ?e 1 2 1 "-1" 20 2] r c by simp
  then show ?thesis using r c by simp
qed


section \<open>The sampling driver\<close>

lemma init_walkers_seeded:
  "init_walkers G st initial =
     (map (\<lambda>row. map2 (\<lambda>a n. a + 0.0001 * n) initial row)
        (fst (rng_randn G (rng_seed G 42) 16 (length initial))),
      snd (rng_randn G (rng_seed G 42) 16 (length initial)))"
  by (simp add: init_walkers_def Let_def case_prod_unfold)

lemma init_walkers_state_indep: "init_walkers G st initial = init_walkers G st' initial"
  by (simp only: init_walkers_seeded)

lemma run_bin_state_indep:
  "run_bin G st initial Kepler_P Kepler_R rels n = run_bin G st' initial Kepler_P Kepler_R rels n"
  by (simp only: run_bin_def init_walkers_state_indep [of G st initial st'])

lemma draw_loop_trace:
  "map call_pos (snd (draw_loop pos Kepler_P Kepler_R use_array draws (tracker, calls)))
     = map call_pos calls @ replicate (length draws) pos
   \<and> map fst (fst (draw_loop pos Kepler_P Kepler_R use_array draws (tracker, calls)))
     = map fst tracker @ draws"
proof (induction draws arbitrary: tracker calls)
  case Nil
  then show ?case by simp
next
  case (Cons draw draws)
  show ?case
    by (simp add: Let_def Cons.IH replicate_app_Cons_same)
qed

text \<open>
  Claim C9. Within one mass bin the ensemble \<open>pos\<close> is computed once, before the
  draw loop, as the initial guess plus \<open>1e-4\<close> times the one Gaussian realisation
  drawn after the seed; the loop starts the sampler once per draw, \<open>num_draws\<close> times,
  and every run starts from this same \<open>pos\<close>.
\<close>

theorem draw_loop_same_start_C9:
  "(case run_bin G st initial Kepler_P Kepler_R rels num_draws of
      ((pos, use_array, tracker, calls), st') \<Rightarrow>
        pos = fst (init_walkers G st initial)
      \<and> pos = map (\<lambda>row. map2 (\<lambda>a n. a + 0.0001 * n) initial row)
                (fst (rng_randn G (rng_seed G 42) 16 (length initial)))
      \<and> length calls = num_draws
      \<and> map call_pos calls = replicate num_draws pos
      \<and> map fst tracker = [0..<num_draws])"
proof -
  obtain pos st1 where iw: "init_walkers G st initial = (pos, st1)" by (cases "init_walkers G st initial")
  obtain ua st2 where ua: "draw_use_array G st1 num_draws rels = (ua, st2)"
    by (cases "draw_use_array G st1 num_draws rels")
  obtain tracker calls where dl:
    "draw_loop pos Kepler_P Kepler_R ua [0..<num_draws] ([], []) = (tracker, calls)"
    by (cases "draw_loop pos Kepler_P Kepler_R ua [0..<num_draws] ([], [])")
  have rb: "run_bin G st initial Kepler_P Kepler_R rels num_draws = ((pos, ua, tracker, calls), st2)"
    by (simp add: run_bin_def iw ua dl)
  have tr: "map call_pos calls = replicate num_draws pos" "map fst tracker = [0..<num_draws]"
    using draw_loop_trace [of pos Kepler_P Kepler_R ua "[0..<num_draws]" "[]" "[]"]
    by (simp_all add: dl)
  have "length (map call_pos calls) = num_draws" by (simp only: tr length_replicate)
  then have len: "length calls = num_draws" by simp
  have p: "pos = map (\<lambda>row. map2 (\<lambda>a n. a + 0.0001 * n) initial row)
                (fst (rng_randn G (rng_seed G 42) 16 (length initial)))"
    using iw by (simp add: init_walkers_seeded)
  show ?thesis
    using p tr len by (simp add: rb iw)
qed

text \<open>
  Claim C8, as amended. The seed 42 is installed before the walkers are initialised,
  so the jitter, and with it \<open>pos\<close>, does not depend on the state in which the
  generator enters the bin. The resampling draws are taken afterwards from the same
  generator, which nothing reseeds in between: \<open>use_array\<close> too is the same in any
  two runs of the bin on the same catalogue.
\<close>

theorem seeding_C8:
  "bin_pos (run_bin G st initial Kepler_P Kepler_R rels num_draws)
     = map (\<lambda>row. map2 (\<lambda>a n. a + 0.0001 * n) initial row)
         (fst (rng_randn G (rng_seed G 42) 16 (length initial)))
   \<and> bin_pos (run_bin G st initial Kepler_P Kepler_R rels num_draws)
     = bin_pos (run_bin G st' initial Kepler_P Kepler_R rels num_draws)
   \<and> bin_use_array (run_bin G st initial Kepler_P Kepler_R rels num_draws)
     = bin_use_array (run_bin G st' initial Kepler_P Kepler_R rels num_draws)
   \<and> bin_use_array (run_bin G st initial Kepler_P Kepler_R rels num_draws)
     = fst (draw_use_array G (snd (rng_randn G (rng_seed G 42) 16 (length initial))) num_draws rels)"
proof -
  have "bin_pos (run_bin G st initial Kepler_P Kepler_R rels num_draws)
     = map (\<lambda>row. map2 (\<lambda>a n. a + 0.0001 * n) initial row)
         (fst (rng_randn G (rng_seed G 42) 16 (length initial)))"
    by (simp add: bin_pos_def run_bin_def init_walkers_seeded case_prod_unfold Let_def)
  moreover have "bin_use_array (run_bin G st initial Kepler_P Kepler_R rels num_draws)
     = fst (draw_use_array G (snd (rng_randn G (rng_seed G 42) 16 (length initial))) num_draws rels)"
    by (simp add: bin_use_array_def run_bin_def init_walkers_seeded case_prod_unfold Let_def)
  ultimately show ?thesis
    by (simp only: run_bin_state_indep [of G st initial Kepler_P Kepler_R rels num_draws st'] simp_thms)
qed

text \<open>
  Claim C8 as stated has the resampling outcomes not determined by the seed, two runs
  of one bin possibly differing in \<open>use_array\<close>. No two runs differ: whatever the
  generator, the catalogue and the two states in which the generator enters the bin.
\<close>

theorem seeding_C8_counterexample:
  "\<not> (\<exists>(G :: nat rng) st st' initial Kepler_P Kepler_R rels num_draws.
        bin_use_array (run_bin G st initial Kepler_P Kepler_R rels num_draws)
          \<noteq> bin_use_array (run_bin G st' initial Kepler_P Kepler_R rels num_draws))"
proof -
  have "bin_use_array (run_bin G st initial Kepler_P Kepler_R rels num_draws)
          = bin_use_array (run_bin G st' initial Kepler_P Kepler_R rels num_draws)"
    for G :: "nat rng" and st st' initial Kepler_P Kepler_R rels num_draws
    by (simp only: run_bin_state_indep [of G st initial Kepler_P Kepler_R rels num_draws st'])
  then show ?thesis by blast
qed

end
